theory Spec2Isabelle
  imports Complex_Main "HOL-Library.AList" "HOL-Library.Word"
begin

section \<open>Data model\<close>

text \<open>
  Shallow embedding of the planning core of IGP2: \<^verbatim>\<open>igp2/planning/node.py\<close>,
  \<^verbatim>\<open>igp2/planlibrary/macro_action.py\<close> and the part of \<^verbatim>\<open>igp2/agent.py\<close> that selects
  the arguments of a macro action. Python floats are modelled as \<^typ>\<open>real\<close>, a raised
  exception as the left injection of a sum, Python's \<^verbatim>\<open>None\<close> as \<^term>\<open>None\<close>, and a dict as an
  association list in insertion order.
\<close>

datatype error =
  TypeError | ValueError | IndexError | KeyError | AttributeError | AssertionError | RuntimeError

type_synonym point = "real \<times> real"

text \<open>Lane, road and junction objects of the road network are referred to by their identity.\<close>

type_synonym lane = nat
type_synonym road = nat
type_synonym junction = nat

text \<open>\<^verbatim>\<open>AgentState\<close>; the code reads \<^verbatim>\<open>position\<close>, \<^verbatim>\<open>heading\<close> and \<^verbatim>\<open>speed\<close>.\<close>

record AgentState =
  time :: real
  position :: point
  speed :: real
  acceleration :: real
  heading :: real

type_synonym frame = "(int \<times> AgentState) list"

subsection \<open>Search nodes (\<^verbatim>\<open>node.py\<close>)\<close>

text \<open>The values a caller can pass as the key of a node.\<close>

datatype py_key = PyNone | PyTuple "string list" | PyList "string list" | PyStr string | PyInt int

fun isinstance_Tuple :: "py_key \<Rightarrow> bool" where
  "isinstance_Tuple (PyTuple _) = True"
| "isinstance_Tuple _ = False"

text \<open>
  The fields of \<^verbatim>\<open>Node\<close>. The actions of a node are kept by name; \<^verbatim>\<open>np.zeros(n)\<close> is a list
  of floats and \<^verbatim>\<open>np.zeros(n, dtype=np.int32)\<close> a list of 32-bit integers.
\<close>

datatype Node = Node
  (key: py_key)
  (state: frame)
  (actions: "string list option")
  (children: "(py_key \<times> Node) list")
  (state_visits: int)
  (q_values: "real list option")
  (action_visits: "32 word list option")

definition Node_init :: "py_key \<Rightarrow> frame \<Rightarrow> string list option \<Rightarrow> error + Node" where
  "Node_init k st acts =
     (if k = PyNone \<or> \<not> isinstance_Tuple k then Inl TypeError
      else Inr (Node k st acts [] 0 None None))"

definition expand :: "Node \<Rightarrow> error + Node" where
  "expand n =
     (case actions n of
        None \<Rightarrow> Inl TypeError
      | Some acts \<Rightarrow>
          Inr (Node (key n) (state n) (actions n) (children n) (state_visits n)
                 (Some (replicate (length acts) 0))
                 (Some (replicate (length acts) 0))))"

definition add_child :: "Node \<Rightarrow> Node \<Rightarrow> Node" where
  "add_child n child =
     Node (key n) (state n) (actions n) (AList.update (key child) child (children n))
       (state_visits n) (q_values n) (action_visits n)"

text \<open>The two property setters of the class.\<close>

definition set_q_values :: "Node \<Rightarrow> real list option \<Rightarrow> Node" where
  "set_q_values n v =
     Node (key n) (state n) (actions n) (children n) (state_visits n) v (action_visits n)"

definition set_state_visits :: "Node \<Rightarrow> int \<Rightarrow> Node" where
  "set_state_visits n v =
     Node (key n) (state n) (actions n) (children n) v (q_values n) (action_visits n)"

definition is_leaf :: "Node \<Rightarrow> bool" where
  "is_leaf n = (length (children n) = 0)"

text \<open>The two states of a node that the specification names.\<close>

definition unexpanded :: "Node \<Rightarrow> bool" where
  "unexpanded n = (q_values n = None \<and> action_visits n = None)"

definition expanded :: "Node \<Rightarrow> bool" where
  "expanded n =
     (case (actions n, q_values n, action_visits n) of
        (Some acts, Some q, Some v) \<Rightarrow> length q = length acts \<and> length v = length acts
      | _ \<Rightarrow> False)"

text \<open>
  The nodes that the methods of the class produce. The parameter \<open>ok\<close> says which
  assignments through the \<^verbatim>\<open>q_values\<close> setter are considered.
\<close>

inductive produced :: "(Node \<Rightarrow> real list option \<Rightarrow> bool) \<Rightarrow> Node \<Rightarrow> bool"
  for ok :: "Node \<Rightarrow> real list option \<Rightarrow> bool" where
  by_init: "Node_init k st acts = Inr n \<Longrightarrow> produced ok n"
| by_expand: "produced ok n \<Longrightarrow> expand n = Inr n' \<Longrightarrow> produced ok n'"
| by_add_child: "produced ok n \<Longrightarrow> produced ok c \<Longrightarrow> produced ok (add_child n c)"
| by_state_visits: "produced ok n \<Longrightarrow> produced ok (set_state_visits n v)"
| by_q_values: "produced ok n \<Longrightarrow> ok n v \<Longrightarrow> produced ok (set_q_values n v)"

definition any_assignment :: "Node \<Rightarrow> real list option \<Rightarrow> bool" where
  "any_assignment n v = True"

definition same_shape :: "Node \<Rightarrow> real list option \<Rightarrow> bool" where
  "same_shape n v =
     (case v of
        None \<Rightarrow> action_visits n = None
      | Some q \<Rightarrow> (case (actions n, action_visits n) of
                     (Some acts, Some w) \<Rightarrow> length q = length acts
                   | _ \<Rightarrow> False))"

subsection \<open>The road network\<close>

text \<open>
  The map and its lanes are consumed read-only through these queries. \<open>successor\<close> is
  \<^verbatim>\<open>lane.link.successor\<close>, which is \<^verbatim>\<open>None\<close> or a list of lanes; \<open>get_lane\<close> and
  \<open>all_lanes\<close> are those of the lane's section; \<open>midline_end\<close> is
  \<^verbatim>\<open>lane.midline.coords[-1]\<close>; \<open>boundary_distance\<close> is \<^verbatim>\<open>lane.boundary.distance\<close>;
  \<open>best_drivable_lane_at\<close> is \<^verbatim>\<open>best_lane_at\<close> with \<^verbatim>\<open>drivable_only=True\<close>;
  \<open>midline_coords\<close> is \<^verbatim>\<open>lane.midline.coords\<close>; \<open>adjacent_lanes\<close> is
  \<^verbatim>\<open>get_adjacent_lanes(lane, True, True)\<close>.
\<close>

record scenario_map =
  best_lane_at :: "point \<Rightarrow> real \<Rightarrow> lane option"
  best_drivable_lane_at :: "point \<Rightarrow> real \<Rightarrow> lane option"
  lanes_at :: "point \<Rightarrow> lane list"
  lanes_within_angle :: "point \<Rightarrow> real \<Rightarrow> real \<Rightarrow> real \<Rightarrow> lane list"
  junction_at :: "point \<Rightarrow> junction option"
  road_in_roundabout :: "road \<Rightarrow> bool"
  road_junction :: "road \<Rightarrow> junction option"
  parent_road :: "lane \<Rightarrow> road"
  lane_id :: "lane \<Rightarrow> int"
  lane_length :: "lane \<Rightarrow> real"
  successor :: "lane \<Rightarrow> lane list option"
  get_lane :: "lane \<Rightarrow> int \<Rightarrow> lane option"
  all_lanes :: "lane \<Rightarrow> lane list"
  distance_at :: "lane \<Rightarrow> point \<Rightarrow> real"
  point_at :: "lane \<Rightarrow> real \<Rightarrow> point"
  get_heading_at :: "lane \<Rightarrow> real \<Rightarrow> real"
  boundary_distance :: "lane \<Rightarrow> point \<Rightarrow> real"
  midline_end :: "lane \<Rightarrow> point"
  midline_coords :: "lane \<Rightarrow> point list"
  adjacent_lanes :: "lane \<Rightarrow> lane list"

subsection \<open>Maneuvers, trajectories and macro actions (\<^verbatim>\<open>macro_action.py\<close>)\<close>

text \<open>A maneuver with the path and the velocities of its trajectory.\<close>

record Maneuver =
  path :: "point list"
  velocity :: "real list"

text \<open>
  The object built by \<^verbatim>\<open>VelocityTrajectory(points, velocity)\<close>; both arguments are
  \<^verbatim>\<open>None\<close> when the macro action has no maneuver.
\<close>

datatype VelocityTrajectory = VelocityTrajectory "point list option" "real list option"

record Action =
  throttle :: real
  steer_angle :: real

text \<open>
  What the trajectory class and the maneuver classes compute: the final agent state and
  the duration of a trajectory, and closed-loop \<^verbatim>\<open>done\<close> and \<^verbatim>\<open>next_action\<close> of a maneuver.
\<close>

record collaborators =
  final_agent_state :: "VelocityTrajectory \<Rightarrow> AgentState"
  duration :: "VelocityTrajectory \<Rightarrow> real"
  maneuver_done :: "Maneuver \<Rightarrow> frame \<Rightarrow> bool"
  maneuver_next_action :: "Maneuver \<Rightarrow> frame \<Rightarrow> Action"

text \<open>
  The attribute \<^verbatim>\<open>_current_maneuver\<close> is untyped in the source: it can hold \<^verbatim>\<open>None\<close>, a
  maneuver or (after the assignment in \<^verbatim>\<open>next_action\<close>) a list of maneuvers.
\<close>

datatype current = NoneRef | OneManeuver Maneuver | ManeuverList "Maneuver list"

record MacroAction =
  open_loop :: bool
  agent_id :: int
  start_frame :: frame
  final_frame :: "frame option"
  maneuvers :: "Maneuver list option"
  current_maneuver :: current

text \<open>
  \<^verbatim>\<open>MacroAction.__init__\<close>. \<open>get_maneuvers\<close> is the method of the subclass: it fails or
  gives the maneuver sequence and the final frame it cached.
\<close>

definition MacroAction_init ::
  "(int \<Rightarrow> frame \<Rightarrow> bool \<Rightarrow> error + Maneuver list \<times> frame option) \<Rightarrow>
   int \<Rightarrow> frame \<Rightarrow> bool \<Rightarrow> error + MacroAction" where
  "MacroAction_init get_maneuvers aid fr ol =
     (case get_maneuvers aid fr ol of
        Inl e \<Rightarrow> Inl e
      | Inr (ms, ff) \<Rightarrow>
          Inr \<lparr>open_loop = ol, agent_id = aid, start_frame = fr, final_frame = ff,
               maneuvers = Some ms, current_maneuver = NoneRef\<rparr>)"

text \<open>
  \<^verbatim>\<open>MacroAction.next_action\<close>, returning the object after the call and the action or the
  exception. \<^verbatim>\<open>None\<close> and a list have neither \<^verbatim>\<open>done\<close> nor \<^verbatim>\<open>next_action\<close>.
\<close>

definition next_action ::
  "collaborators \<Rightarrow> MacroAction \<Rightarrow> frame \<Rightarrow> MacroAction \<times> (error + Action)" where
  "next_action ext ma fr =
     (case current_maneuver ma of
        NoneRef \<Rightarrow> (ma, Inl AttributeError)
      | ManeuverList ms \<Rightarrow> (ma, Inl AttributeError)
      | OneManeuver mv \<Rightarrow>
          (if maneuver_done ext mv fr then
             (case maneuvers ma of
                None \<Rightarrow> (ma, Inl TypeError)
              | Some ms \<Rightarrow> (ma\<lparr>current_maneuver := ManeuverList (tl ms)\<rparr>, Inl AttributeError))
           else (ma, Inr (maneuver_next_action ext mv fr))))"

text \<open>A sequence of \<^verbatim>\<open>next_action\<close> calls, one per observed frame, whatever each call raised.\<close>

fun next_actions :: "collaborators \<Rightarrow> MacroAction \<Rightarrow> frame list \<Rightarrow> MacroAction" where
  "next_actions ext ma [] = ma"
| "next_actions ext ma (fr # frs) = next_actions ext (fst (next_action ext ma fr)) frs"

text \<open>The loop of \<^verbatim>\<open>get_trajectory\<close> over the maneuvers.\<close>

fun append_maneuvers ::
  "point list option \<Rightarrow> real list option \<Rightarrow> Maneuver list \<Rightarrow>
   point list option \<times> real list option" where
  "append_maneuvers points vel [] = (points, vel)"
| "append_maneuvers points vel (mv # ms) =
     append_maneuvers
       (case points of None \<Rightarrow> Some (path mv) | Some ps \<Rightarrow> Some (ps @ tl (path mv)))
       (case vel of None \<Rightarrow> Some (velocity mv) | Some vs \<Rightarrow> Some (vs @ tl (velocity mv)))
       ms"

definition get_trajectory :: "MacroAction \<Rightarrow> error + VelocityTrajectory" where
  "get_trajectory ma =
     (if \<not> open_loop ma then Inl ValueError
      else case maneuvers ma of
        None \<Rightarrow> Inl ValueError
      | Some ms \<Rightarrow>
          (case append_maneuvers None None ms of (points, vel) \<Rightarrow>
             Inr (VelocityTrajectory points vel)))"

subsection \<open>Forward projection\<close>

text \<open>
  The loop of \<^verbatim>\<open>_lane_at_distance\<close>, with its two variables as arguments. It has no bound,
  so the result is an option: \<^term>\<open>None\<close> stands for a walk that never ends.
  \<^verbatim>\<open>successor[0]\<close> of an empty list raises \<^verbatim>\<open>IndexError\<close>.
\<close>

partial_function (option) lane_walk ::
  "scenario_map \<Rightarrow> real \<Rightarrow> lane \<Rightarrow> real \<Rightarrow> (error + lane \<times> real) option" where
  "lane_walk m ds current_lane total_length =
     (if total_length \<le> ds \<and> ds < total_length + lane_length m current_lane
      then Some (Inr (current_lane, ds - total_length))
      else (case successor m current_lane of
              None \<Rightarrow> Some (Inr (current_lane, lane_length m current_lane))
            | Some [] \<Rightarrow> Some (Inl IndexError)
            | Some (s # rest) \<Rightarrow>
                lane_walk m ds s (total_length + lane_length m current_lane)))"

declare lane_walk.simps [code]

definition lane_at_distance ::
  "scenario_map \<Rightarrow> lane \<Rightarrow> real \<Rightarrow> (error + lane \<times> real) option" where
  "lane_at_distance m start_lane ds = lane_walk m ds start_lane 0"

text \<open>
  The loop over \<^verbatim>\<open>frame.items()\<close>; \<open>new_frame\<close> is the dict being filled. An agent without a
  lane is skipped.
\<close>

fun project_agents ::
  "int \<Rightarrow> scenario_map \<Rightarrow> real \<Rightarrow> frame \<Rightarrow> frame \<Rightarrow> (error + frame) option" where
  "project_agents ego m dur [] new_frame = Some (Inr new_frame)"
| "project_agents ego m dur ((aid, agent) # items) new_frame =
     (if aid \<noteq> ego then
        (case best_lane_at m (position agent) (heading agent) of
           None \<Rightarrow> project_agents ego m dur items new_frame
         | Some agent_lane \<Rightarrow>
             (case lane_at_distance m agent_lane
                     (distance_at m agent_lane (position agent) + dur * speed agent) of
                None \<Rightarrow> None
              | Some (Inl e) \<Rightarrow> Some (Inl e)
              | Some (Inr (final_lane, distance_in_lane)) \<Rightarrow>
                  project_agents ego m dur items
                    (AList.update aid
                       (agent\<lparr>position := point_at m final_lane distance_in_lane,
                              heading := get_heading_at m final_lane distance_in_lane\<rparr>)
                       new_frame)))
      else project_agents ego m dur items new_frame)"

text \<open>
  \<^verbatim>\<open>MacroAction.play_forward_macro_action\<close>. The macro action is \<^term>\<open>None\<close> when the caller
  passes a false value, and the frame is then returned as it is.
\<close>

definition play_forward_macro_action ::
  "collaborators \<Rightarrow> int \<Rightarrow> scenario_map \<Rightarrow> frame \<Rightarrow> MacroAction option \<Rightarrow>
   (error + frame) option" where
  "play_forward_macro_action ext ego m fr macro_action =
     (case macro_action of
        None \<Rightarrow> Some (Inr fr)
      | Some ma \<Rightarrow>
          (case get_trajectory ma of
             Inl e \<Rightarrow> Some (Inl e)
           | Inr trajectory \<Rightarrow>
               project_agents ego m (duration ext trajectory) fr
                 [(ego, final_agent_state ext trajectory)]))"

subsection \<open>Lane chains\<close>

text \<open>
  The chain of a lane is the lane, its first successor, the first successor of that, and so
  on. \<open>chain_end m l k\<close> says that the chain of \<open>l\<close> stops at the lane \<open>k\<close>, whose successor is
  \<^verbatim>\<open>None\<close>; \<open>chain_breaks m l\<close> that it reaches a lane whose successor list is empty;
  \<open>arc_on_chain m l ds k d\<close> that the point at arc length \<open>ds\<close> from the start of \<open>l\<close> along its
  chain lies on lane \<open>k\<close>, at arc length \<open>d\<close> from the start of \<open>k\<close>.
\<close>

inductive arc_on_chain :: "scenario_map \<Rightarrow> lane \<Rightarrow> real \<Rightarrow> lane \<Rightarrow> real \<Rightarrow> bool"
  for m :: scenario_map where
  on_this_lane: "0 \<le> ds \<Longrightarrow> ds < lane_length m l \<Longrightarrow> arc_on_chain m l ds l ds"
| on_successor: "successor m l = Some (s # rest) \<Longrightarrow>
     arc_on_chain m s (ds - lane_length m l) l' d \<Longrightarrow> arc_on_chain m l ds l' d"

inductive chain_end :: "scenario_map \<Rightarrow> lane \<Rightarrow> lane \<Rightarrow> bool" for m :: scenario_map where
  last_lane: "successor m l = None \<Longrightarrow> chain_end m l l"
| via_successor: "successor m l = Some (s # rest) \<Longrightarrow> chain_end m s l' \<Longrightarrow> chain_end m l l'"


text \<open>What a walk that returns has computed.\<close>

definition walk_post :: "scenario_map \<Rightarrow> real \<Rightarrow> lane \<Rightarrow> real \<Rightarrow> (error + lane \<times> real) \<Rightarrow> bool" where
  "walk_post m ds l t y =
     (case y of
        Inl e \<Rightarrow> e = IndexError
      | Inr (l', d) \<Rightarrow>
          arc_on_chain m l (ds - t) l' d \<or>
          (chain_end m l l' \<and> d = lane_length m l' \<and> (\<forall>k c. \<not> arc_on_chain m l (ds - t) k c)))"

text \<open>
  The state the loop stores for one agent, and the condition under which the loop gets past
  that agent.
\<close>

definition project_state :: "scenario_map \<Rightarrow> real \<Rightarrow> AgentState \<Rightarrow> AgentState option" where
  "project_state m dur agent =
     (case best_lane_at m (position agent) (heading agent) of
        None \<Rightarrow> None
      | Some agent_lane \<Rightarrow>
          (case lane_at_distance m agent_lane
                  (distance_at m agent_lane (position agent) + dur * speed agent) of
             Some (Inr (final_lane, distance_in_lane)) \<Rightarrow>
               Some (agent\<lparr>position := point_at m final_lane distance_in_lane,
                           heading := get_heading_at m final_lane distance_in_lane\<rparr>)
           | _ \<Rightarrow> None))"

definition walk_returns :: "scenario_map \<Rightarrow> real \<Rightarrow> AgentState \<Rightarrow> bool" where
  "walk_returns m dur agent =
     (case best_lane_at m (position agent) (heading agent) of
        None \<Rightarrow> True
      | Some agent_lane \<Rightarrow>
          (\<exists>r. lane_at_distance m agent_lane
                  (distance_at m agent_lane (position agent) + dur * speed agent) = Some (Inr r)))"

text \<open>
  The projection as the specification words it: every other agent is advanced along its chain
  by its speed times the duration, and the ego takes the final state of the trajectory.
\<close>

definition advanced_along_chain :: "scenario_map \<Rightarrow> real \<Rightarrow> AgentState \<Rightarrow> AgentState \<Rightarrow> bool" where
  "advanced_along_chain m dur agent st =
     (\<exists>l0 l d. best_lane_at m (position agent) (heading agent) = Some l0 \<and>
        arc_on_chain m l0 (distance_at m l0 (position agent) + speed agent * dur) l d \<and>
        position st = point_at m l d \<and> heading st = get_heading_at m l d)"

definition projects_as_claimed ::
  "collaborators \<Rightarrow> int \<Rightarrow> scenario_map \<Rightarrow> frame \<Rightarrow> MacroAction \<Rightarrow> frame \<Rightarrow> bool" where
  "projects_as_claimed ext ego m fr ma nf =
     (\<exists>trajectory. get_trajectory ma = Inr trajectory \<and>
        map_of nf ego = Some (final_agent_state ext trajectory) \<and>
        (\<forall>(a, agent) \<in> set fr. a \<noteq> ego \<longrightarrow>
           (\<exists>st. map_of nf a = Some st \<and>
                 advanced_along_chain m (duration ext trajectory) agent st)))"

subsection \<open>Lane changes\<close>

text \<open>
  The two class constants \<^verbatim>\<open>SwitchLane.MIN_SWITCH_LENGTH\<close> and
  \<^verbatim>\<open>SwitchLane.TARGET_SWITCH_LENGTH\<close>, whose values are set outside the modelled files.
\<close>

record switch_lengths =
  MIN_SWITCH_LENGTH :: real
  TARGET_SWITCH_LENGTH :: real

text \<open>\<^verbatim>\<open>ChangeLane._get_target_lane\<close>; \<open>left\<close> is \<^verbatim>\<open>self.left\<close>.\<close>

definition get_target_lane :: "scenario_map \<Rightarrow> bool \<Rightarrow> lane \<Rightarrow> lane option" where
  "get_target_lane m left current_lane =
     get_lane m current_lane
       (lane_id m current_lane +
        (if sgn (lane_id m current_lane) > 0 then 1 else - 1) * (if left then - 1 else 1))"

text \<open>
  Modelled from the spec: \<^verbatim>\<open>SwitchLaneLeft.applicable\<close> and \<^verbatim>\<open>SwitchLaneRight.applicable\<close>
  of the maneuver library, which is not among the sources. The specification asks that a
  target lane exists on that side and is not the center lane (id 0); the target lane is the
  one \<^verbatim>\<open>_get_target_lane\<close> finds from the lane the agent is on.
\<close>

definition SwitchLane_applicable :: "scenario_map \<Rightarrow> bool \<Rightarrow> AgentState \<Rightarrow> bool" where
  "SwitchLane_applicable m left s =
     (case best_lane_at m (position s) (heading s) of
        None \<Rightarrow> False
      | Some current_lane \<Rightarrow>
          (case get_target_lane m left current_lane of
             None \<Rightarrow> False
           | Some target_lane \<Rightarrow> lane_id m target_lane \<noteq> 0))"

text \<open>
  Python's \<^verbatim>\<open>min(xs, key=lambda x: x[0])\<close> on a list with first element \<open>best\<close>: the first
  of the least elements.
\<close>

fun min_by_distance :: "real \<times> lane \<Rightarrow> (real \<times> lane) list \<Rightarrow> real \<times> lane" where
  "min_by_distance best [] = best"
| "min_by_distance best (x # xs) = min_by_distance (if fst x < fst best then x else best) xs"

text \<open>
  \<^verbatim>\<open>ChangeLane.check_change_validity\<close>. The result is a Python value: \<^verbatim>\<open>True\<close>, \<^verbatim>\<open>False\<close>,
  or \<^verbatim>\<open>None\<close> where the function ends without a \<^verbatim>\<open>return\<close>. \<^verbatim>\<open>min\<close> of an empty list
  raises \<^verbatim>\<open>ValueError\<close>, and an attribute of \<^verbatim>\<open>None\<close> \<^verbatim>\<open>AttributeError\<close>.
\<close>

definition check_change_validity ::
  "switch_lengths \<Rightarrow> scenario_map \<Rightarrow> AgentState \<Rightarrow> error + bool option" where
  "check_change_validity c m s =
     (if junction_at m (position s) \<noteq> None then Inr (Some False)
      else case best_lane_at m (position s) (heading s) of
        None \<Rightarrow> Inl AttributeError
      | Some current_lane \<Rightarrow>
          (case successor m current_lane of
             None \<Rightarrow> Inr (Some True)
           | Some succs \<Rightarrow>
               (case map (\<lambda>sl. (boundary_distance m sl (position s), sl)) succs of
                  [] \<Rightarrow> Inl ValueError
                | sd # successor_distances \<Rightarrow>
                    (case min_by_distance sd successor_distances of
                       (distance_to_successor, nearest_successor) \<Rightarrow>
                         if list_all (\<lambda>ln. length (all_lanes m ln) \<le> 2) succs
                         then Inr (Some (distance_to_successor > MIN_SWITCH_LENGTH c))
                         else if road_junction m (parent_road m nearest_successor) \<noteq> None
                         then Inr (Some (distance_to_successor > TARGET_SWITCH_LENGTH c \<or>
                                         road_in_roundabout m (parent_road m current_lane)))
                         else Inr None))))"

text \<open>
  \<^verbatim>\<open>ChangeLaneLeft.applicable\<close> and \<^verbatim>\<open>ChangeLaneRight.applicable\<close>: Python's \<^verbatim>\<open>a and b\<close> is
  \<^verbatim>\<open>a\<close> when \<^verbatim>\<open>a\<close> is false and the value of \<^verbatim>\<open>b\<close> otherwise.
\<close>

definition ChangeLaneLeft_applicable ::
  "switch_lengths \<Rightarrow> scenario_map \<Rightarrow> AgentState \<Rightarrow> error + bool option" where
  "ChangeLaneLeft_applicable c m s =
     (if SwitchLane_applicable m True s then check_change_validity c m s else Inr (Some False))"

definition ChangeLaneRight_applicable ::
  "switch_lengths \<Rightarrow> scenario_map \<Rightarrow> AgentState \<Rightarrow> error + bool option" where
  "ChangeLaneRight_applicable c m s =
     (if SwitchLane_applicable m False s then check_change_validity c m s else Inr (Some False))"

text \<open>The nearest successor and its distance, as \<^verbatim>\<open>check_change_validity\<close> computes them.\<close>

definition nearest_successor_of ::
  "scenario_map \<Rightarrow> AgentState \<Rightarrow> lane \<Rightarrow> lane list \<Rightarrow> real \<times> lane" where
  "nearest_successor_of m s l0 succs =
     min_by_distance (boundary_distance m l0 (position s), l0)
       (map (\<lambda>sl. (boundary_distance m sl (position s), sl)) succs)"

subsection \<open>Turn targets of \<^verbatim>\<open>Exit\<close>\<close>

text \<open>
  \<^verbatim>\<open>np.allclose(p, target, atol=0.25)\<close> on two points, with numpy's default relative
  tolerance \<open>1e-5\<close>.
\<close>

definition allclose :: "point \<Rightarrow> point \<Rightarrow> real \<Rightarrow> bool" where
  "allclose p target atol =
     (\<bar>fst p - fst target\<bar> \<le> atol + (1 / 100000) * \<bar>fst target\<bar> \<and>
      \<bar>snd p - snd target\<bar> \<le> atol + (1 / 100000) * \<bar>snd target\<bar>)"

text \<open>The loop over the lanes inside a junction; \<open>targets\<close> is the list being filled.\<close>

fun collect_targets :: "scenario_map \<Rightarrow> point list \<Rightarrow> lane list \<Rightarrow> point list" where
  "collect_targets m targets [] = targets"
| "collect_targets m targets (la # lanes) =
     collect_targets m
       (if \<not> list_ex (\<lambda>p. allclose p (midline_end m la) (1 / 4)) targets
        then targets @ [midline_end m la] else targets)
       lanes"

text \<open>
  \<^verbatim>\<open>Exit.get_possible_args\<close>. Each returned dict \<^verbatim>\<open>{"turn_target": t}\<close> is given by its
  point. \<^verbatim>\<open>LANE_ANGLE_THRESHOLD\<close> is \<open>pi / 9\<close>. The goal point is an argument that the body
  never reads. Iterating over \<^verbatim>\<open>None\<close> raises \<^verbatim>\<open>TypeError\<close>.
\<close>

definition Exit_get_possible_args ::
  "scenario_map \<Rightarrow> AgentState \<Rightarrow> point option \<Rightarrow> error + point list" where
  "Exit_get_possible_args m s goal_point =
     (if junction_at m (position s) \<noteq> None then
        (case lanes_within_angle m (position s) (heading s) (pi / 9) (1 / 2) of
           [] \<Rightarrow>
             (case best_drivable_lane_at m (position s) (heading s) of
                None \<Rightarrow> Inl AttributeError
              | Some la \<Rightarrow> Inr (collect_targets m [] [la]))
         | la # lanes \<Rightarrow> Inr (collect_targets m [] (la # lanes)))
      else
        (case best_lane_at m (position s) (heading s) of
           None \<Rightarrow> Inl AttributeError
         | Some current_lane \<Rightarrow>
             (case successor m current_lane of
                None \<Rightarrow> Inl TypeError
              | Some succs \<Rightarrow>
                  Inr (map (midline_end m)
                        (filter (\<lambda>connecting_lane.
                           \<not> road_in_roundabout m (parent_road m connecting_lane)) succs)))))"

text \<open>\<^verbatim>\<open>np.linalg.norm\<close> of the difference of two points.\<close>

definition distance :: "point \<Rightarrow> point \<Rightarrow> real" where
  "distance p q = sqrt ((fst p - fst q)\<^sup>2 + (snd p - snd q)\<^sup>2)"

text \<open>
  \<^verbatim>\<open>np.argmin\<close> on a list with first element \<open>best\<close> at index \<open>i\<close>: the index of the first
  least element; \<open>j\<close> is the index of the next element.
\<close>

fun argmin_from :: "real \<Rightarrow> nat \<Rightarrow> nat \<Rightarrow> real list \<Rightarrow> nat" where
  "argmin_from best i j [] = i"
| "argmin_from best i j (x # xs) =
     (if x < best then argmin_from x j (Suc j) xs else argmin_from best i (Suc j) xs)"

text \<open>
  The arguments \<^verbatim>\<open>MacroAgent.update_macro_action\<close> constructs \<^verbatim>\<open>Exit\<close> with, for a goal with
  the given center: with more than one possible target only the one nearest the goal is kept.
\<close>

definition update_macro_action_args ::
  "scenario_map \<Rightarrow> AgentState \<Rightarrow> point \<Rightarrow> error + point list" where
  "update_macro_action_args m s goal_center =
     (case Exit_get_possible_args m s (Some goal_center) of
        Inl e \<Rightarrow> Inl e
      | Inr possible_args \<Rightarrow>
          (if length possible_args > 1 then
             (case map (\<lambda>p. distance p goal_center) possible_args of
                [] \<Rightarrow> Inl ValueError
              | x # xs \<Rightarrow> Inr [possible_args ! argmin_from x 0 1 xs])
           else Inr possible_args))"

text \<open>No target of the list is within the tolerance of an earlier one.\<close>

fun no_close_pair :: "point list \<Rightarrow> bool" where
  "no_close_pair [] = True"
| "no_close_pair (p # ps) = (list_all (\<lambda>q. \<not> allclose p q (1 / 4)) ps \<and> no_close_pair ps)"

subsection \<open>Gap analysis of a lane change\<close>

text \<open>\<^verbatim>\<open>np.isclose(a, b)\<close> with numpy's default tolerances \<open>1e-8\<close> and \<open>1e-5\<close>.\<close>

definition isclose :: "real \<Rightarrow> real \<Rightarrow> bool" where
  "isclose a b = (\<bar>a - b\<bar> \<le> 1 / 100000000 + (1 / 100000) * \<bar>b\<bar>)"

text \<open>
  The midline of the target lane sequence, a line string: its length, the arc length of the
  projection of a point onto it, and the point at an arc length.
\<close>

record midline =
  line_length :: real
  project :: "point \<Rightarrow> real"
  interpolate :: "real \<Rightarrow> point"

text \<open>An interval \<^verbatim>\<open>(interval_start_time, interval_end_time, d_distance)\<close>.\<close>

type_synonym interval = "real \<times> real \<times> real"

text \<open>
  The loop of \<^verbatim>\<open>_get_oncoming_vehicle_intervals\<close> over \<^verbatim>\<open>start_frame.items()\<close>; \<open>ego_state\<close>
  is the ego_state of the ego and \<open>ivs\<close> the list being filled.
\<close>

fun oncoming_loop ::
  "switch_lengths \<Rightarrow> scenario_map \<Rightarrow> midline \<Rightarrow> lane list \<Rightarrow> int \<Rightarrow> AgentState \<Rightarrow>
   frame \<Rightarrow> interval list \<Rightarrow> error + interval list" where
  "oncoming_loop c m tm seq ego ego_state [] ivs = Inr ivs"
| "oncoming_loop c m tm seq ego ego_state ((aid, agent) # items) ivs =
     (if ego = aid then oncoming_loop c m tm seq ego ego_state items ivs
      else if list_ex (\<lambda>l. l \<in> set seq) (lanes_at m (position agent)) then
        (let d_speed = speed ego_state - speed agent;
             d_distance = project tm (position agent) - project tm (position ego_state)
         in if isclose d_speed 0 then
              (if \<bar>d_distance\<bar> < MIN_SWITCH_LENGTH c then Inl RuntimeError
               else oncoming_loop c m tm seq ego ego_state items ivs)
            else
              (let time_until_pass = d_distance / d_speed;
                   pass_time = \<bar>MIN_SWITCH_LENGTH c / d_speed\<bar>;
                   interval_end_time = time_until_pass + pass_time
               in if interval_end_time > 0 then
                    oncoming_loop c m tm seq ego ego_state items
                      (ivs @ [(max 0 (time_until_pass - pass_time), interval_end_time,
                               d_distance)])
                  else oncoming_loop c m tm seq ego ego_state items ivs))
      else oncoming_loop c m tm seq ego ego_state items ivs)"

text \<open>
  \<^verbatim>\<open>ChangeLane._get_oncoming_vehicle_intervals\<close>; \<^verbatim>\<open>sorted\<close> is stable, as \<^const>\<open>sort_key\<close>
  is. A frame without the ego raises \<^verbatim>\<open>KeyError\<close>.
\<close>

definition get_oncoming_vehicle_intervals ::
  "switch_lengths \<Rightarrow> scenario_map \<Rightarrow> midline \<Rightarrow> lane list \<Rightarrow> int \<Rightarrow> frame \<Rightarrow>
   error + interval list" where
  "get_oncoming_vehicle_intervals c m tm seq ego frame0 =
     (case map_of frame0 ego of
        None \<Rightarrow> Inl KeyError
      | Some ego_state \<Rightarrow>
          (case oncoming_loop c m tm seq ego ego_state frame0 [] of
             Inl e \<Rightarrow> Inl e
           | Inr ivs \<Rightarrow> Inr (sort_key fst ivs)))"

text \<open>
  The inner loop of the gap search: the start time \<^verbatim>\<open>t_start\<close> of a change of length
  \<^verbatim>\<open>d_change\<close> at speed \<open>v\<close>, pushed past every interval that is in its way.
\<close>

definition first_free :: "real \<Rightarrow> interval list \<Rightarrow> real \<Rightarrow> real" where
  "first_free v oncoming_intervals d_change =
     fold (\<lambda>(iv_start, iv_end, d_distance) t_start.
             if \<bar>d_distance\<bar> < d_change \<and> t_start < iv_end \<and> iv_start < t_start + d_change / v
             then iv_end else t_start)
       oncoming_intervals 0"

text \<open>
  The \<^verbatim>\<open>while ... else\<close> loop of \<^verbatim>\<open>get_maneuvers\<close>: it returns the switch length and the
  start time found, or fails the \<^verbatim>\<open>assert False\<close> of its \<^verbatim>\<open>else\<close> branch.
\<close>

function first_change ::
  "real \<Rightarrow> real \<Rightarrow> interval list \<Rightarrow> real \<Rightarrow> real \<Rightarrow> error + real \<times> real" where
  "first_change min_length v oncoming_intervals t_lane_end d_change =
     (if d_change \<ge> min_length then
        (if first_free v oncoming_intervals d_change + d_change / v \<ge> t_lane_end
         then first_change min_length v oncoming_intervals t_lane_end (d_change - 5)
         else Inr (d_change, first_free v oncoming_intervals d_change))
      else Inl AssertionError)"
  by pat_completeness auto
termination
proof (relation "measure (\<lambda>(min_length, v, ivs, t_end, d). nat \<lceil>d - min_length + 5\<rceil>)",
    goal_cases)
  case 1
  show ?case by simp
next
  case (2 min_length v ivs t_end d)
  have "d - 5 - min_length = (d - min_length) - 5" by simp
  then have a: "\<lceil>d - 5 - min_length\<rceil> = \<lceil>d - min_length\<rceil> - 5"
    by (simp only: ceiling_diff_numeral)
  have "\<lceil>0::real\<rceil> \<le> \<lceil>d - min_length\<rceil>"
    by (rule ceiling_mono) (use 2 in simp)
  then have b: "0 \<le> \<lceil>d - min_length\<rceil>" by (simp only: ceiling_zero)
  show ?case by (simp add: a) (use b in linarith)
qed

declare first_change.simps [simp del]

text \<open>
  The part of \<^verbatim>\<open>ChangeLane.get_maneuvers\<close> under \<^verbatim>\<open>if ChangeLane.CHECK_ONCOMING\<close>, from the
  target lane sequence and its midline.
\<close>

definition gap_analysis ::
  "switch_lengths \<Rightarrow> scenario_map \<Rightarrow> midline \<Rightarrow> lane list \<Rightarrow> int \<Rightarrow> frame \<Rightarrow>
   error + real \<times> real" where
  "gap_analysis c m tm seq ego frame0 =
     (case map_of frame0 ego of
        None \<Rightarrow> Inl KeyError
      | Some ego_state \<Rightarrow>
          (case get_oncoming_vehicle_intervals c m tm seq ego frame0 of
             Inl e \<Rightarrow> Inl e
           | Inr oncoming_intervals \<Rightarrow>
               first_change (MIN_SWITCH_LENGTH c) (speed ego_state) oncoming_intervals
                 ((line_length tm - project tm (position ego_state)) / speed ego_state)
                 (TARGET_SWITCH_LENGTH c)))"

text \<open>
  What \<^verbatim>\<open>get_maneuvers\<close> calls outside the modelled files: the line string built from a
  list of points, the constructors \<^verbatim>\<open>FollowLane\<close> and \<^verbatim>\<open>SwitchLaneLeft\<close> or
  \<^verbatim>\<open>SwitchLaneRight\<close> (given the termination point of their configuration, the agent and
  the frame; they can fail), and \<^verbatim>\<open>Maneuver.play_forward_maneuver\<close>.
\<close>

record library =
  LineString :: "point list \<Rightarrow> midline"
  FollowLane :: "point \<Rightarrow> int \<Rightarrow> frame \<Rightarrow> error + Maneuver"
  SwitchLane :: "bool \<Rightarrow> point \<Rightarrow> int \<Rightarrow> frame \<Rightarrow> error + Maneuver"
  play_forward_maneuver :: "int \<Rightarrow> frame \<Rightarrow> Maneuver \<Rightarrow> frame"

text \<open>
  The lane with which the loop of \<^verbatim>\<open>_get_lane_sequence\<close> goes on after \<open>current_lane\<close>:
  \<^term>\<open>None\<close> ends the loop, and where no branch of the source assigns, the lane stays.
\<close>

definition next_lane :: "scenario_map \<Rightarrow> lane \<Rightarrow> lane option" where
  "next_lane m current_lane =
     (case successor m current_lane of
        None \<Rightarrow> None
      | Some successors \<Rightarrow>
          if length successors = 1 then Some (hd successors)
          else if length successors > 1 then
            (let possible_lanes = filter (\<lambda>s. length (adjacent_lanes m s) > 0) successors
             in if length possible_lanes = 0 then None
                else if length possible_lanes = 1 then Some (hd possible_lanes)
                else if road_in_roundabout m (parent_road m current_lane)
                then find (\<lambda>la. road_in_roundabout m (parent_road m la)) possible_lanes
                else Some current_lane)
          else Some current_lane)"

text \<open>
  The loop of \<^verbatim>\<open>ChangeLane._get_lane_sequence\<close>. Nothing bounds it where the lane stays
  and has no length, so the result is an option.
\<close>

partial_function (option) lane_sequence_loop ::
  "scenario_map \<Rightarrow> bool \<Rightarrow> real \<Rightarrow> lane list \<Rightarrow> lane option \<Rightarrow> real \<Rightarrow> lane list option" where
  "lane_sequence_loop m left threshold ls current_lane dist_so_far =
     (case current_lane of
        None \<Rightarrow> Some ls
      | Some cl \<Rightarrow>
          if dist_so_far \<le> threshold then
            (case get_target_lane m left cl of
               None \<Rightarrow> Some ls
             | Some target_lane \<Rightarrow>
                 if lane_id m target_lane = 0 then Some ls
                 else lane_sequence_loop m left threshold (ls @ [target_lane]) (next_lane m cl)
                        (dist_so_far + lane_length m cl))
          else Some ls)"

declare lane_sequence_loop.simps [code]

definition get_lane_sequence ::
  "scenario_map \<Rightarrow> bool \<Rightarrow> AgentState \<Rightarrow> lane \<Rightarrow> real \<Rightarrow> lane list option" where
  "get_lane_sequence m left ego_state current_lane threshold =
     lane_sequence_loop m left threshold [] (Some current_lane)
       (- distance_at m current_lane (position ego_state))"

text \<open>
  \<^verbatim>\<open>ChangeLane._get_lane_sequence_midline\<close>; \<^verbatim>\<open>lane_sequence[-1]\<close> of an empty list raises
  \<^verbatim>\<open>IndexError\<close>, and so does \<^verbatim>\<open>coords[-1]\<close> of a midline without coordinates.
\<close>

definition get_lane_sequence_midline ::
  "scenario_map \<Rightarrow> library \<Rightarrow> lane list \<Rightarrow> error + midline" where
  "get_lane_sequence_midline m lib lane_sequence =
     (case lane_sequence of
        [] \<Rightarrow> Inl IndexError
      | _ # _ \<Rightarrow>
          (case midline_coords m (last lane_sequence) of
             [] \<Rightarrow> Inl IndexError
           | _ # _ \<Rightarrow>
               Inr (LineString lib
                      (concat (map (\<lambda>la. butlast (midline_coords m la)) lane_sequence) @
                       [last (midline_coords m (last lane_sequence))]))))"

text \<open>
  The end of \<^verbatim>\<open>get_maneuvers\<close>: the switch-lane maneuver, appended to the maneuvers so far,
  and the final frame.
\<close>

definition switch_maneuvers ::
  "library \<Rightarrow> midline \<Rightarrow> bool \<Rightarrow> int \<Rightarrow> frame \<Rightarrow> point \<Rightarrow> real \<Rightarrow> Maneuver list \<Rightarrow>
   error + Maneuver list \<times> frame option" where
  "switch_maneuvers lib target_midline left ego fr lane_follow_end_point d_change mans =
     (case SwitchLane lib left
             (interpolate target_midline
                (project target_midline lane_follow_end_point + d_change)) ego fr of
        Inl e \<Rightarrow> Inl e
      | Inr man \<Rightarrow> Inr (mans @ [man], Some (play_forward_maneuver lib ego fr man)))"

text \<open>
  The maneuvers built once the gap analysis has given the length and the start time of the
  change: a lane-follow maneuver up to the start of the change when that is not at once,
  then the switch.
\<close>

definition change_maneuvers ::
  "scenario_map \<Rightarrow> library \<Rightarrow> midline \<Rightarrow> bool \<Rightarrow> int \<Rightarrow> frame \<Rightarrow> AgentState \<Rightarrow> lane \<Rightarrow>
   real \<Rightarrow> real \<Rightarrow> error + Maneuver list \<times> frame option" where
  "change_maneuvers m lib target_midline left ego frame0 ego_state current_lane d_change t_start =
     (if t_start > 0 then
        (case FollowLane lib
                (point_at m current_lane
                   (distance_at m current_lane (position ego_state) + t_start * speed ego_state))
                ego frame0 of
           Inl e \<Rightarrow> Inl e
         | Inr man \<Rightarrow>
             switch_maneuvers lib target_midline left ego (play_forward_maneuver lib ego frame0 man)
               (point_at m current_lane
                  (distance_at m current_lane (position ego_state) + t_start * speed ego_state))
               d_change [man])
      else switch_maneuvers lib target_midline left ego frame0 (position ego_state) d_change [])"

text \<open>
  \<^verbatim>\<open>ChangeLane.get_maneuvers\<close>. \<open>check_oncoming\<close> is the class flag \<^verbatim>\<open>CHECK_ONCOMING\<close>
  (\<^verbatim>\<open>False\<close> in the source) and \<open>left\<close> is \<^verbatim>\<open>self.left\<close>. The result is \<^term>\<open>None\<close> when
  the loop of \<^verbatim>\<open>_get_lane_sequence\<close> does not end. The gap analysis divides by
  \<^verbatim>\<open>state.speed\<close>: its model is that of the code for an ego that moves, and what is proved
  of it below is for a positive speed.
\<close>

definition ChangeLane_get_maneuvers ::
  "bool \<Rightarrow> switch_lengths \<Rightarrow> scenario_map \<Rightarrow> library \<Rightarrow> bool \<Rightarrow> int \<Rightarrow> frame \<Rightarrow> bool \<Rightarrow>
   (error + Maneuver list \<times> frame option) option" where
  "ChangeLane_get_maneuvers check_oncoming c m lib left ego frame0 ol =
     (case map_of frame0 ego of
        None \<Rightarrow> Some (Inl KeyError)
      | Some ego_state \<Rightarrow>
          (case best_lane_at m (position ego_state) (heading ego_state) of
             None \<Rightarrow> Some (Inl AttributeError)
           | Some current_lane \<Rightarrow>
               (case get_lane_sequence m left ego_state current_lane (TARGET_SWITCH_LENGTH c) of
                  None \<Rightarrow> None
                | Some target_lane_sequence \<Rightarrow>
                    (case get_lane_sequence_midline m lib target_lane_sequence of
                       Inl e \<Rightarrow> Some (Inl e)
                     | Inr target_midline \<Rightarrow>
                         Some
                          (if ol then
                             (if check_oncoming then
                                (case gap_analysis c m target_midline target_lane_sequence
                                        ego frame0 of
                                   Inl e \<Rightarrow> Inl e
                                 | Inr (d_change, t_start) \<Rightarrow>
                                     change_maneuvers m lib target_midline left ego frame0
                                       ego_state current_lane d_change t_start)
                              else switch_maneuvers lib target_midline left ego frame0
                                     (position ego_state) (TARGET_SWITCH_LENGTH c) [])
                           else Inr ([], None))))))"

text \<open>
  The construction of a \<^verbatim>\<open>ChangeLane\<close>: \<^verbatim>\<open>MacroAction.__init__\<close> with this
  \<^verbatim>\<open>get_maneuvers\<close>.
\<close>

definition ChangeLane_init ::
  "bool \<Rightarrow> switch_lengths \<Rightarrow> scenario_map \<Rightarrow> library \<Rightarrow> bool \<Rightarrow> int \<Rightarrow> frame \<Rightarrow> bool \<Rightarrow>
   (error + MacroAction) option" where
  "ChangeLane_init check_oncoming c m lib left ego frame0 ol =
     (case ChangeLane_get_maneuvers check_oncoming c m lib left ego frame0 ol of
        None \<Rightarrow> None
      | Some made \<Rightarrow> Some (MacroAction_init (\<lambda>aid fr opl. made) ego frame0 ol))"

text \<open>
  The two ways the analysis finds no gap: another agent on the target lanes whose speed is
  close to the ego's and which is within the minimum switch length of it along the midline;
  and a change of length \<open>d_change\<close> that would not be over before the lane ends.
\<close>

definition equal_speed_neighbour ::
  "switch_lengths \<Rightarrow> scenario_map \<Rightarrow> midline \<Rightarrow> lane list \<Rightarrow> int \<Rightarrow> AgentState \<Rightarrow>
   int \<Rightarrow> AgentState \<Rightarrow> bool" where
  "equal_speed_neighbour c m tm seq ego ego_state aid agent =
     (aid \<noteq> ego \<and> list_ex (\<lambda>l. l \<in> set seq) (lanes_at m (position agent)) \<and>
      isclose (speed ego_state - speed agent) 0 \<and>
      \<bar>project tm (position agent) - project tm (position ego_state)\<bar> < MIN_SWITCH_LENGTH c)"

definition too_late :: "real \<Rightarrow> interval list \<Rightarrow> real \<Rightarrow> real \<Rightarrow> bool" where
  "too_late v ivs t_lane_end d_change = (t_lane_end \<le> first_free v ivs d_change + d_change / v)"

text \<open>The interval, if any, that the loop appends for one agent.\<close>

definition interval_of ::
  "switch_lengths \<Rightarrow> scenario_map \<Rightarrow> midline \<Rightarrow> lane list \<Rightarrow> int \<Rightarrow> AgentState \<Rightarrow>
   int \<Rightarrow> AgentState \<Rightarrow> interval list" where
  "interval_of c m tm seq ego ego_state aid agent =
     (let d_speed = speed ego_state - speed agent;
          d_distance = project tm (position agent) - project tm (position ego_state);
          time_until_pass = d_distance / d_speed;
          pass_time = \<bar>MIN_SWITCH_LENGTH c / d_speed\<bar>
      in if aid \<noteq> ego \<and> list_ex (\<lambda>l. l \<in> set seq) (lanes_at m (position agent)) \<and>
            \<not> isclose d_speed 0 \<and> time_until_pass + pass_time > 0
         then [(max 0 (time_until_pass - pass_time), time_until_pass + pass_time, d_distance)]
         else [])"

subsection \<open>Concrete nodes\<close>

definition root_node :: Node where
  "root_node = Node (PyTuple [''Root'']) [] (Some [''Continue'', ''Exit'']) [] 0 None None"

definition expanded_root :: Node where
  "expanded_root = Node (PyTuple [''Root'']) [] (Some [''Continue'', ''Exit'']) [] 0
     (Some [0, 0]) (Some [0, 0])"

definition reshaped_root :: Node where
  "reshaped_root = Node (PyTuple [''Root'']) [] (Some [''Continue'', ''Exit'']) [] 0
     (Some []) (Some [0, 0])"

subsection \<open>Concrete roads, agents and macro actions\<close>

definition straight_map :: scenario_map where
  "straight_map =
     \<lparr>best_lane_at = (\<lambda>p h. if snd p = 0 \<and> 0 \<le> fst p \<and> fst p < 10 then Some 0
                          else if snd p = 0 \<and> 10 \<le> fst p \<and> fst p < 20 then Some 1 else None),
      best_drivable_lane_at = (\<lambda>p h. None),
      lanes_at = (\<lambda>p. []),
      lanes_within_angle = (\<lambda>p h a d. []),
      junction_at = (\<lambda>p. None),
      road_in_roundabout = (\<lambda>r. False),
      road_junction = (\<lambda>r. None),
      parent_road = (\<lambda>l. l),
      lane_id = (\<lambda>l. - 1),
      lane_length = (\<lambda>l. 10),
      successor = (\<lambda>l. if l = 0 then Some [1] else None),
      get_lane = (\<lambda>l i. None),
      all_lanes = (\<lambda>l. [l]),
      distance_at = (\<lambda>l p. fst p - 10 * real l),
      point_at = (\<lambda>l d. (10 * real l + d, 0)),
      get_heading_at = (\<lambda>l d. 0),
      boundary_distance = (\<lambda>l p. 0),
      midline_end = (\<lambda>l. (10 * real l + 10, 0)),
      midline_coords = (\<lambda>l. [(10 * real l, 0), (10 * real l + 10, 0)]),
      adjacent_lanes = (\<lambda>l. [])\<rparr>"




definition ego_final :: AgentState where
  "ego_final = \<lparr>time = 4, position = (8, 0), speed = 2, acceleration = 0, heading = 0\<rparr>"

definition four_seconds :: collaborators where
  "four_seconds =
     \<lparr>final_agent_state = (\<lambda>t. ego_final), duration = (\<lambda>t. 4),
      maneuver_done = (\<lambda>mv fr. False),
      maneuver_next_action = (\<lambda>mv fr. \<lparr>throttle = 0, steer_angle = 0\<rparr>)\<rparr>"

definition car :: "real \<Rightarrow> real \<Rightarrow> real \<Rightarrow> AgentState" where
  "car x y v = \<lparr>time = 0, position = (x, y), speed = v, acceleration = 0, heading = 0\<rparr>"

definition follow_8 :: MacroAction where
  "follow_8 =
     \<lparr>open_loop = True, agent_id = 0, start_frame = [(0, car 0 0 2)], final_frame = None,
      maneuvers = Some [\<lparr>path = [(0, 0), (8, 0)], velocity = [2, 2]\<rparr>],
      current_maneuver = NoneRef\<rparr>"

definition three_cars :: frame where
  "three_cars = [(0, car 0 0 2), (1, car 5 0 2), (2, car 50 50 2)]"

definition fast_car :: frame where
  "fast_car = [(0, car 0 0 2), (1, car 5 0 5)]"


text \<open>The \<^verbatim>\<open>get_maneuvers\<close> of a macro action with the single maneuver of \<open>follow_8\<close>.\<close>

definition one_follow :: "int \<Rightarrow> frame \<Rightarrow> bool \<Rightarrow> error + Maneuver list \<times> frame option" where
  "one_follow aid fr ol = Inr ([\<lparr>path = [(0, 0), (8, 0)], velocity = [2, 2]\<rparr>], None)"

text \<open>
  A road with lanes 10 (id -1) and 11 (id -2) in one section; lane 11 leads to lane 20 of a
  three-lane junction road, whose boundary is at x = 30.
\<close>

definition lengths_5_20 :: switch_lengths where
  "lengths_5_20 = \<lparr>MIN_SWITCH_LENGTH = 5, TARGET_SWITCH_LENGTH = 20\<rparr>"

definition two_lane_map :: scenario_map where
  "two_lane_map = straight_map
     \<lparr>best_lane_at := (\<lambda>p h. if snd p = 0 then Some 11 else None),
      junction_at := (\<lambda>p. if 30 < fst p then Some 1 else None),
      road_junction := (\<lambda>r. if r = 20 then Some 1 else None),
      lane_id := (\<lambda>l. if l = 10 then - 1 else if l = 11 then - 2 else - 1),
      successor := (\<lambda>l. if l = 11 then Some [20] else None),
      get_lane := (\<lambda>l i. if l = 11 \<and> i = - 1 then Some 10 else None),
      all_lanes := (\<lambda>l. if l = 20 then [20, 21, 22] else [9, 10, 11]),
      boundary_distance := (\<lambda>l p. 30 - fst p)\<rparr>"

text \<open>
  A junction in which three lanes are within the angle threshold at x = 0 (two of them end
  within the tolerance of each other) and none elsewhere, and a lane approaching a junction
  with three connecting lanes, the middle one on a roundabout road.
\<close>

definition junction_map :: scenario_map where
  "junction_map = straight_map
     \<lparr>junction_at := (\<lambda>p. Some 1),
      lanes_within_angle := (\<lambda>p h a d. if fst p = 0 then [30, 31, 32] else []),
      best_drivable_lane_at := (\<lambda>p h. Some 33),
      midline_end := (\<lambda>l. if l = 30 then (10, 0) else if l = 31 then (101 / 10, 1 / 10)
                           else if l = 32 then (0, 10) else (5, 5))\<rparr>"

definition approach_map :: scenario_map where
  "approach_map = straight_map
     \<lparr>successor := (\<lambda>l. if l = 0 then Some [40, 41, 42] else None),
      road_in_roundabout := (\<lambda>r. r = 41),
      midline_end := (\<lambda>l. if l = 40 then (20, 5) else if l = 41 then (20, 0)
                           else (20, - 5))\<rparr>"

text \<open>
  The two lanes of \<open>straight_map\<close> (id -1) with a lane to their right each (lanes 10 and 11,
  id -2, along y = 5); the same road with lanes of no length that are their own successors;
  and a library whose line strings are those of points along a line parallel to the x axis
  (\<^verbatim>\<open>project\<close> and \<^verbatim>\<open>interpolate\<close> stay within the line, and a negative distance is
  measured back from its end). An ego with speed 2: alone 4 before the end of the road; off
  the road; beside a car of the same speed 3 ahead; behind a slower car 10 ahead.
\<close>

definition gap_map :: scenario_map where
  "gap_map = straight_map
     \<lparr>lanes_at := (\<lambda>p. if snd p = 5 then (if fst p < 10 then [10] else [11]) else []),
      lane_id := (\<lambda>l. if l < 10 then - 1 else - 2),
      get_lane := (\<lambda>l i. if i = - 2 \<and> l < 2 then Some (l + 10) else None),
      midline_end := (\<lambda>l. (10 * real (l - 10) + 10, 5)),
      midline_coords := (\<lambda>l. [(10 * real (l - 10), 5), (10 * real (l - 10) + 10, 5)])\<rparr>"

definition flat_gap_map :: scenario_map where
  "flat_gap_map = gap_map\<lparr>lane_length := (\<lambda>l. 0), successor := (\<lambda>l. Some [l])\<rparr>"

definition x_axis_line :: "point list \<Rightarrow> midline" where
  "x_axis_line pts =
     \<lparr>line_length = fst (last pts) - fst (hd pts),
      project = (\<lambda>p. max 0 (min (fst (last pts) - fst (hd pts)) (fst p - fst (hd pts)))),
      interpolate =
        (\<lambda>d. (fst (hd pts) +
                (if d < 0 then max 0 (fst (last pts) - fst (hd pts) + d)
                 else min (fst (last pts) - fst (hd pts)) d),
               snd (hd pts)))\<rparr>"

definition x_axis_library :: library where
  "x_axis_library =
     \<lparr>LineString = x_axis_line,
      FollowLane = (\<lambda>p aid fr. Inr \<lparr>path = [p], velocity = [2]\<rparr>),
      SwitchLane = (\<lambda>left p aid fr. Inr \<lparr>path = [p], velocity = [2]\<rparr>),
      play_forward_maneuver = (\<lambda>aid fr man. fr)\<rparr>"

definition alone :: frame where
  "alone = [(0, car 16 0 2)]"

definition off_road :: frame where
  "off_road = [(0, car 50 50 2)]"

definition beside :: frame where
  "beside = [(0, car 0 0 2), (1, car 3 5 2)]"

definition slower :: frame where
  "slower = [(0, car 0 0 2), (1, car 10 5 1)]"

section \<open>Theorems\<close>

subsection \<open>Search nodes\<close>

text \<open>
  C10. Constructing a node raises \<^verbatim>\<open>TypeError\<close> exactly when the key is not a tuple
  (\<^verbatim>\<open>None\<close> included); for every tuple key it succeeds, and the node has zero state visits,
  no children, no Q-value array and no action-visit array.
\<close>

theorem Node_init_TypeError_iff:
  "(Node_init k st acts = Inl TypeError \<longleftrightarrow> \<not> isinstance_Tuple k) \<and>
   (\<forall>e. Node_init k st acts = Inl e \<longrightarrow> e = TypeError) \<and>
   (isinstance_Tuple k \<longrightarrow>
      (\<exists>n. Node_init k st acts = Inr n \<and> key n = k \<and> state n = st \<and> actions n = acts \<and>
           state_visits n = 0 \<and> children n = [] \<and> q_values n = None \<and> action_visits n = None))"
  by (cases k) (simp_all add: Node_init_def)

theorem Node_init_TypeError_iff_witness:
  "Node_init PyNone [] None = Inl TypeError \<and>
   Node_init (PyList [''Continue'']) [] (Some [''Exit'']) = Inl TypeError \<and>
   Node_init (PyTuple [''Root'']) [] (Some [''Continue'', ''Exit'']) =
     Inr (Node (PyTuple [''Root'']) [] (Some [''Continue'', ''Exit'']) [] 0 None None)"
  using Node_init_TypeError_iff [of PyNone "[]" None]
    Node_init_TypeError_iff [of "PyList [''Continue'']" "[]" "Some [''Exit'']"]
    Node_init_TypeError_iff [of "PyTuple [''Root'']" "[]" "Some [''Continue'', ''Exit'']"]
  by (auto simp: Node_init_def)

lemma produced_root: "produced ok root_node"
  by (rule produced.by_init [of "PyTuple [''Root'']" "[]" "Some [''Continue'', ''Exit'']"])
     (simp add: Node_init_def root_node_def)

lemma expand_root: "expand root_node = Inr expanded_root"
  by (simp add: expand_def root_node_def expanded_root_def)

lemma produced_expanded_root: "produced ok expanded_root"
  by (rule produced.by_expand [OF produced_root expand_root])

lemma unexpanded_not_expanded: "unexpanded n \<Longrightarrow> \<not> expanded n"
  by (auto simp: unexpanded_def expanded_def split: option.splits)

lemma produced_same_shape_state: "produced same_shape n \<Longrightarrow> unexpanded n \<or> expanded n"
proof (induction rule: produced.induct)
  case (by_init k st acts n)
  then show ?case by (auto simp: Node_init_def unexpanded_def split: if_splits)
next
  case (by_expand n n')
  then show ?case by (auto simp: expand_def expanded_def split: option.splits)
next
  case (by_add_child n c)
  then show ?case by (auto simp: add_child_def expanded_def unexpanded_def)
next
  case (by_state_visits n v)
  then show ?case by (auto simp: set_state_visits_def expanded_def unexpanded_def)
next
  case (by_q_values n v)
  then show ?case
    by (auto simp: set_q_values_def same_shape_def expanded_def unexpanded_def split: option.splits)
qed

text \<open>
  C6 (as amended). A node made by the constructor is unexpanded. \<^verbatim>\<open>expand\<close> succeeds exactly
  when the node has an action list, and then both arrays are all zero and as long as the
  action list. Every node produced by the constructor, \<^verbatim>\<open>expand\<close>, \<^verbatim>\<open>add_child\<close>, the
  \<^verbatim>\<open>state_visits\<close> setter and those assignments through the \<^verbatim>\<open>q_values\<close> setter that keep
  the shape (an array as long as the action list on an expanded node, \<^verbatim>\<open>None\<close> on an
  unexpanded one) is in exactly one of the two states.
\<close>

theorem node_states:
  "(produced same_shape n \<longrightarrow> (unexpanded n \<noteq> expanded n)) \<and>
   (Node_init k st acts = Inr n0 \<longrightarrow> unexpanded n0) \<and>
   ((\<exists>n2. expand n1 = Inr n2) \<longleftrightarrow> actions n1 \<noteq> None) \<and>
   (expand n1 = Inr n2 \<longrightarrow>
      (\<exists>as. actions n1 = Some as \<and> actions n2 = Some as \<and> expanded n2 \<and>
            q_values n2 = Some (replicate (length as) 0) \<and>
            action_visits n2 = Some (replicate (length as) 0)))"
proof (intro conjI impI)
  assume "produced same_shape n"
  then show "unexpanded n \<noteq> expanded n"
    using produced_same_shape_state unexpanded_not_expanded by blast
next
  assume "Node_init k st acts = Inr n0"
  then show "unexpanded n0" by (auto simp: Node_init_def unexpanded_def split: if_splits)
next
  show "(\<exists>n2. expand n1 = Inr n2) \<longleftrightarrow> actions n1 \<noteq> None"
    by (auto simp: expand_def split: option.splits)
next
  assume "expand n1 = Inr n2"
  then show "\<exists>as. actions n1 = Some as \<and> actions n2 = Some as \<and> expanded n2 \<and>
            q_values n2 = Some (replicate (length as) 0) \<and>
            action_visits n2 = Some (replicate (length as) 0)"
    by (auto simp: expand_def expanded_def split: option.splits)
qed

theorem node_states_witness:
  "unexpanded root_node \<and> \<not> expanded root_node \<and> expand root_node = Inr expanded_root \<and>
   expanded expanded_root \<and> \<not> unexpanded expanded_root \<and>
   q_values expanded_root = Some [0, 0] \<and> action_visits expanded_root = Some [0, 0]"
  using node_states [of expanded_root "PyTuple [''Root'']" "[]" "Some [''Continue'', ''Exit'']"
      root_node root_node expanded_root]
    node_states [of root_node "PyTuple [''Root'']" "[]" "Some [''Continue'', ''Exit'']"
      root_node root_node expanded_root]
    produced_expanded_root [of same_shape] produced_root [of same_shape] expand_root
  by (simp add: root_node_def expanded_root_def Node_init_def unexpanded_def expanded_def)

text \<open>
  The claim as first stated, for every node, fails: the \<^verbatim>\<open>q_values\<close> setter accepts any
  value. After \<^verbatim>\<open>n.expand(); n.q_values = np.zeros(0)\<close> the node has both arrays, of
  lengths 0 and 2, for two actions.
\<close>

theorem node_states_counterexample:
  "produced any_assignment reshaped_root \<and> \<not> unexpanded reshaped_root \<and>
   \<not> expanded reshaped_root \<and> actions reshaped_root = Some [''Continue'', ''Exit''] \<and>
   q_values reshaped_root = Some [] \<and> action_visits reshaped_root = Some [0, 0]"
proof -
  have "reshaped_root = set_q_values expanded_root (Some [])"
    by (simp add: reshaped_root_def set_q_values_def expanded_root_def)
  then have "produced any_assignment reshaped_root"
    using produced.by_q_values [OF produced_expanded_root, of any_assignment "Some []"]
    by (simp add: any_assignment_def)
  then show ?thesis
    by (simp add: reshaped_root_def unexpanded_def expanded_def)
qed

subsection \<open>Lane walks\<close>

lemma car_fields: "position (car x y v) = (x, y)" "heading (car x y v) = 0" "speed (car x y v) = v"
  by (simp_all add: car_def)

lemma no_arc_at_end:
  assumes "\<not> (t \<le> ds \<and> ds < t + lane_length m l)" and "successor m l = None"
  shows "\<not> arc_on_chain m l (ds - t) k c"
proof
  assume "arc_on_chain m l (ds - t) k c"
  then show False using assms by cases auto
qed

lemma no_arc_step:
  assumes "\<not> (t \<le> ds \<and> ds < t + lane_length m l)" and "successor m l = Some (s # rest)"
    and "\<forall>k c. \<not> arc_on_chain m s (ds - t - lane_length m l) k c"
  shows "\<not> arc_on_chain m l (ds - t) k c"
proof
  assume "arc_on_chain m l (ds - t) k c"
  then show False using assms by cases auto
qed

lemma lane_walk_post:
  assumes "lane_walk m ds l t = Some y"
  shows "walk_post m ds l t y"
proof (rule lane_walk.raw_induct [where P = walk_post, OF _ assms])
  fix f m ds l t y
  assume IH: "\<And>m ds l t y. f m ds l t = Some y \<Longrightarrow> walk_post m ds l t y"
  assume step: "(if t \<le> ds \<and> ds < t + lane_length m l then Some (Inr (l, ds - t))
      else case successor m l of
           None \<Rightarrow> Some (Inr (l, lane_length m l))
           | Some [] \<Rightarrow> Some (Inl IndexError)
           | Some (s # rest) \<Rightarrow> f m ds s (t + lane_length m l)) = Some y"
  show "walk_post m ds l t y"
  proof (cases "t \<le> ds \<and> ds < t + lane_length m l")
    case True
    with step have "y = Inr (l, ds - t)" by auto
    with True show ?thesis by (auto simp: walk_post_def intro: arc_on_chain.on_this_lane)
  next
    case False
    show ?thesis
    proof (cases "successor m l")
      case None
      with False step have "y = Inr (l, lane_length m l)" by auto
      then show ?thesis
        using no_arc_at_end [OF False None] chain_end.last_lane [OF None]
        by (simp add: walk_post_def)
    next
      case (Some ss)
      show ?thesis
      proof (cases ss)
        case Nil
        with Some False step show ?thesis by (auto simp: walk_post_def)
      next
        case (Cons s rest)
        with Some have succ: "successor m l = Some (s # rest)" by simp
        with False step have "f m ds s (t + lane_length m l) = Some y" by auto
        from IH [OF this] have post: "walk_post m ds s (t + lane_length m l) y" .
        show ?thesis
        proof (cases y)
          case (Inl e)
          with post show ?thesis by (simp add: walk_post_def)
        next
          case (Inr r)
          obtain l' d where r: "r = (l', d)" by (cases r)
          from post Inr r
          have "arc_on_chain m s (ds - t - lane_length m l) l' d \<or>
                (chain_end m s l' \<and> d = lane_length m l' \<and>
                 (\<forall>k c. \<not> arc_on_chain m s (ds - t - lane_length m l) k c))"
            by (simp add: walk_post_def algebra_simps)
          then have "arc_on_chain m l (ds - t) l' d \<or>
             (chain_end m l l' \<and> d = lane_length m l' \<and> (\<forall>k c. \<not> arc_on_chain m l (ds - t) k c))"
          proof
            assume "arc_on_chain m s (ds - t - lane_length m l) l' d"
            then show ?thesis using succ by (blast intro: arc_on_chain.on_successor)
          next
            assume e: "chain_end m s l' \<and> d = lane_length m l' \<and>
                 (\<forall>k c. \<not> arc_on_chain m s (ds - t - lane_length m l) k c)"
            then have "chain_end m l l'" using succ by (blast intro: chain_end.via_successor)
            moreover have "\<forall>k c. \<not> arc_on_chain m l (ds - t) k c"
              using no_arc_step [OF False succ] e by blast
            ultimately show ?thesis using e by blast
          qed
          with Inr r show ?thesis by (simp add: walk_post_def)
        qed
      qed
    qed
  qed
qed

lemma get_trajectory_follow_8:
  "get_trajectory follow_8 = Inr (VelocityTrajectory (Some [(0, 0), (8, 0)]) (Some [2, 2]))"
  by (simp add: get_trajectory_def follow_8_def)

lemma walk_13: "lane_at_distance straight_map 0 13 = Some (Inr (1, 3))"
  by (simp add: lane_at_distance_def lane_walk.simps straight_map_def)

lemma walk_25: "lane_at_distance straight_map 0 25 = Some (Inr (1, 10))"
  by (simp add: lane_at_distance_def lane_walk.simps straight_map_def)

lemma play_three_cars:
  "play_forward_macro_action four_seconds 0 straight_map three_cars (Some follow_8) =
     Some (Inr [(0, ego_final), (1, car 13 0 2)])"
  using walk_13
  by (simp add: play_forward_macro_action_def get_trajectory_follow_8 three_cars_def
      four_seconds_def straight_map_def car_def)

lemma play_fast_car:
  "play_forward_macro_action four_seconds 0 straight_map fast_car (Some follow_8) =
     Some (Inr [(0, ego_final), (1, car 20 0 5)])"
  using walk_25
  by (simp add: play_forward_macro_action_def get_trajectory_follow_8 fast_car_def
      four_seconds_def straight_map_def car_def)

lemma no_arc_25: "\<not> arc_on_chain straight_map 0 25 k c"
proof -
  have len: "lane_length straight_map l = 10" for l by (simp add: straight_map_def)
  have s0: "successor straight_map 0 = Some (1 # [])" by (simp add: straight_map_def)
  have s1: "successor straight_map 1 = None" by (simp add: straight_map_def)
  have "\<not> arc_on_chain straight_map 1 (25 - 10) k c" for k c
    using no_arc_at_end [of 10 25 straight_map 1 k c] s1 by (simp add: len)
  then have "\<forall>k c. \<not> arc_on_chain straight_map 1 (25 - 0 - lane_length straight_map 0) k c"
    by (simp add: len)
  from no_arc_step [of 0 25 straight_map 0 1 "[]", OF _ s0 this]
  show ?thesis by (simp add: len)
qed






















subsection \<open>Forward projection\<close>

lemma project_agents_returns:
  "(\<exists>nf'. project_agents ego m dur items nf = Some (Inr nf')) \<longleftrightarrow>
   (\<forall>(a, agent) \<in> set items. a \<noteq> ego \<longrightarrow> walk_returns m dur agent)"
proof (induction items arbitrary: nf)
  case Nil
  then show ?case by simp
next
  case (Cons x items)
  obtain a agent where x: "x = (a, agent)" by (cases x)
  show ?case
    unfolding x using Cons.IH
    by (auto simp: walk_returns_def split: option.splits sum.splits)
qed

lemma project_agents_keys:
  "project_agents ego m dur items nf = Some (Inr nf') \<Longrightarrow>
   fst ` set nf' = fst ` set nf \<union>
     {a. \<exists>agent. (a, agent) \<in> set items \<and> a \<noteq> ego \<and>
           best_lane_at m (position agent) (heading agent) \<noteq> None}"
proof (induction items arbitrary: nf)
  case Nil
  then show ?case by simp
next
  case (Cons x items)
  obtain a agent where x: "x = (a, agent)" by (cases x)
  show ?case
  proof (cases "a \<noteq> ego \<and> best_lane_at m (position agent) (heading agent) \<noteq> None")
    case False
    then have "project_agents ego m dur items nf = Some (Inr nf')"
      using Cons.prems x by (auto split: if_splits)
    from Cons.IH [OF this] show ?thesis using False x by auto
  next
    case True
    then obtain l0 where l0: "best_lane_at m (position agent) (heading agent) = Some l0" by auto
    from Cons.prems x True l0 obtain l d where
      "project_agents ego m dur items
         (AList.update a (agent\<lparr>position := point_at m l d, heading := get_heading_at m l d\<rparr>) nf)
       = Some (Inr nf')"
      by (auto split: option.splits sum.splits)
    from Cons.IH [OF this] show ?thesis using True x by (auto simp: dom_update)
  qed
qed

lemma project_agents_values:
  "distinct (map fst items) \<Longrightarrow> project_agents ego m dur items nf = Some (Inr nf') \<Longrightarrow>
   map_of nf' a =
     (if a = ego then map_of nf a
      else case map_of items a of
             None \<Rightarrow> map_of nf a
           | Some agent \<Rightarrow>
               (case project_state m dur agent of None \<Rightarrow> map_of nf a | Some st \<Rightarrow> Some st))"
proof (induction items arbitrary: nf)
  case Nil
  then show ?case by simp
next
  case (Cons x items)
  obtain b agent where x: "x = (b, agent)" by (cases x)
  from Cons.prems(1) x have d: "distinct (map fst items)" and nb: "map_of items b = None"
    by (auto simp: map_of_eq_None_iff)
  show ?case
  proof (cases "b \<noteq> ego \<and> best_lane_at m (position agent) (heading agent) \<noteq> None")
    case False
    then have "project_agents ego m dur items nf = Some (Inr nf')"
      using Cons.prems x by (auto split: if_splits)
    from Cons.IH [OF d this] show ?thesis using False x nb
      by (auto simp: project_state_def split: option.splits)
  next
    case True
    then obtain l0 where l0: "best_lane_at m (position agent) (heading agent) = Some l0" by auto
    from Cons.prems x True l0 obtain l d where
      w: "lane_at_distance m l0 (distance_at m l0 (position agent) + dur * speed agent)
            = Some (Inr (l, d))" and
      p: "project_agents ego m dur items
         (AList.update b (agent\<lparr>position := point_at m l d, heading := get_heading_at m l d\<rparr>) nf)
       = Some (Inr nf')"
      by (auto split: option.splits sum.splits)
    have ps: "project_state m dur agent =
       Some (agent\<lparr>position := point_at m l d, heading := get_heading_at m l d\<rparr>)"
      using l0 w by (simp add: project_state_def)
    from Cons.IH [OF d p] show ?thesis using True x nb ps
      by (auto simp: update_conv' split: option.splits)
  qed
qed


lemma get_trajectory_Inr_iff:
  "(\<exists>trajectory. get_trajectory ma = Inr trajectory) \<longleftrightarrow> open_loop ma \<and> maneuvers ma \<noteq> None"
  by (auto simp: get_trajectory_def split: option.splits prod.splits)

lemma play_forward_Some:
  "play_forward_macro_action ext ego m fr (Some ma) = Some (Inr nf) \<longleftrightarrow>
   (\<exists>trajectory. get_trajectory ma = Inr trajectory \<and>
      project_agents ego m (duration ext trajectory) fr
        [(ego, final_agent_state ext trajectory)] = Some (Inr nf))"
  by (auto simp: play_forward_macro_action_def split: sum.splits)

lemma project_state_Some:
  "project_state m dur agent = Some st \<Longrightarrow>
   \<exists>l0 l d. best_lane_at m (position agent) (heading agent) = Some l0 \<and>
     lane_at_distance m l0 (distance_at m l0 (position agent) + dur * speed agent) = Some (Inr (l, d)) \<and>
     st = agent\<lparr>position := point_at m l d, heading := get_heading_at m l d\<rparr>"
  by (auto simp: project_state_def split: option.splits sum.splits)

lemma project_state_None:
  "walk_returns m dur agent \<Longrightarrow> project_state m dur agent = None \<Longrightarrow>
   best_lane_at m (position agent) (heading agent) = None"
  by (auto simp: project_state_def walk_returns_def split: option.splits sum.splits)

lemma distinct_three_cars: "distinct (map fst three_cars)"
  by (simp add: three_cars_def)

lemma walks_three_cars:
  "\<forall>(a, agent) \<in> set three_cars. a \<noteq> 0 \<longrightarrow>
     walk_returns straight_map
       (duration four_seconds (VelocityTrajectory (Some [(0, 0), (8, 0)]) (Some [2, 2]))) agent"
  using walk_13
  by (simp add: three_cars_def walk_returns_def four_seconds_def car_def straight_map_def)

text \<open>
  C1 (as amended). For a frame and an open-loop macro action with a maneuver list, whenever
  the walk of each other agent that has a lane returns, forward projection returns a frame
  in which the ego has the final state of the macro action's trajectory; an other agent
  without a best lane is left out; an other agent with a best lane keeps its state except
  position and heading, which are read from the lane geometry at the arc length of its
  position plus speed times duration along the chain of its lane when that arc length lies
  on the chain, and at the end of the last lane of the chain otherwise.
\<close>

theorem play_forward_projection:
  assumes dist: "distinct (map fst fr)"
    and traj: "get_trajectory ma = Inr trajectory"
    and walks: "\<forall>(a, agent) \<in> set fr. a \<noteq> ego \<longrightarrow> walk_returns m (duration ext trajectory) agent"
  shows "\<exists>nf. play_forward_macro_action ext ego m fr (Some ma) = Some (Inr nf) \<and>
     map_of nf ego = Some (final_agent_state ext trajectory) \<and>
     (\<forall>a agent. a \<noteq> ego \<and> map_of fr a = Some agent \<longrightarrow>
        (case best_lane_at m (position agent) (heading agent) of
           None \<Rightarrow> map_of nf a = None
         | Some l0 \<Rightarrow>
             (\<exists>l d. map_of nf a =
                      Some (agent\<lparr>position := point_at m l d, heading := get_heading_at m l d\<rparr>) \<and>
                (let ds = distance_at m l0 (position agent) + duration ext trajectory * speed agent
                 in arc_on_chain m l0 ds l d \<or>
                    (chain_end m l0 l \<and> d = lane_length m l \<and>
                     (\<forall>k c. \<not> arc_on_chain m l0 ds k c))))))"
proof -
  let ?dur = "duration ext trajectory"
  let ?init = "[(ego, final_agent_state ext trajectory)]"
  from walks obtain nf where nf: "project_agents ego m ?dur fr ?init = Some (Inr nf)"
    using project_agents_returns [of ego m ?dur fr ?init] by blast
  then have play: "play_forward_macro_action ext ego m fr (Some ma) = Some (Inr nf)"
    using traj by (simp add: play_forward_Some)
  note val = project_agents_values [OF dist nf]
  have ego: "map_of nf ego = Some (final_agent_state ext trajectory)"
    using val [of ego] by simp
  have others: "case best_lane_at m (position agent) (heading agent) of
           None \<Rightarrow> map_of nf a = None
         | Some l0 \<Rightarrow>
             (\<exists>l d. map_of nf a =
                      Some (agent\<lparr>position := point_at m l d, heading := get_heading_at m l d\<rparr>) \<and>
                (let ds = distance_at m l0 (position agent) + ?dur * speed agent
                 in arc_on_chain m l0 ds l d \<or>
                    (chain_end m l0 l \<and> d = lane_length m l \<and>
                     (\<forall>k c. \<not> arc_on_chain m l0 ds k c))))"
    if a: "a \<noteq> ego" "map_of fr a = Some agent" for a agent
  proof (cases "project_state m ?dur agent")
    case None
    from a have "(a, agent) \<in> set fr" by (simp add: map_of_SomeD)
    with walks a have "walk_returns m ?dur agent" by auto
    from project_state_None [OF this None] val [of a] a None
    show ?thesis by simp
  next
    case (Some st)
    from project_state_Some [OF Some] obtain l0 l d where
      l0: "best_lane_at m (position agent) (heading agent) = Some l0" and
      w: "lane_at_distance m l0 (distance_at m l0 (position agent) + ?dur * speed agent)
            = Some (Inr (l, d))" and
      st: "st = agent\<lparr>position := point_at m l d, heading := get_heading_at m l d\<rparr>"
      by blast
    from w have "walk_post m (distance_at m l0 (position agent) + ?dur * speed agent) l0 0 (Inr (l, d))"
      unfolding lane_at_distance_def by (rule lane_walk_post)
    then show ?thesis
      using val [of a] a Some st l0 by (auto simp: walk_post_def Let_def)
  qed
  from play ego others show ?thesis by blast
qed

theorem play_forward_projection_witness:
  "distinct (map fst three_cars) \<and>
   get_trajectory follow_8 = Inr (VelocityTrajectory (Some [(0, 0), (8, 0)]) (Some [2, 2])) \<and>
   walk_returns straight_map 4 (car 5 0 2) \<and> walk_returns straight_map 4 (car 50 50 2) \<and>
   (\<exists>nf. play_forward_macro_action four_seconds 0 straight_map three_cars (Some follow_8) =
            Some (Inr nf) \<and>
         map_of nf 0 = Some ego_final \<and> map_of nf 1 = Some (car 13 0 2) \<and> map_of nf 2 = None)"
proof -
  from play_forward_projection [OF distinct_three_cars get_trajectory_follow_8 walks_three_cars]
  obtain nf where
    nf: "play_forward_macro_action four_seconds 0 straight_map three_cars (Some follow_8) =
           Some (Inr nf)" and
    ego: "map_of nf 0 =
           Some (final_agent_state four_seconds
                  (VelocityTrajectory (Some [(0, 0), (8, 0)]) (Some [2, 2])))"
    by blast
  from nf play_three_cars have eq: "nf = [(0, ego_final), (1, car 13 0 2)]" by simp
  then have "map_of nf 1 = Some (car 13 0 2)" "map_of nf 2 = None" by simp_all
  moreover from ego have "map_of nf 0 = Some ego_final" by (simp add: four_seconds_def)
  moreover have "walk_returns straight_map 4 (car 5 0 2)" "walk_returns straight_map 4 (car 50 50 2)"
    using walks_three_cars by (simp_all add: three_cars_def four_seconds_def)
  ultimately show ?thesis
    using nf distinct_three_cars get_trajectory_follow_8 by blast
qed

text \<open>
  As first stated the claim fails where the chain is shorter than the arc length: two lanes
  of length 10 in a row, a car at arc length 5 with speed 5, and a duration of 4. The claim
  puts the car at arc length 25; the code puts it at the end of the second lane, at 20.
\<close>

theorem play_forward_counterexample:
  "play_forward_macro_action four_seconds 0 straight_map fast_car (Some follow_8) =
     Some (Inr [(0, ego_final), (1, car 20 0 5)]) \<and>
   \<not> projects_as_claimed four_seconds 0 straight_map fast_car follow_8
       [(0, ego_final), (1, car 20 0 5)]"
proof -
  have "\<not> advanced_along_chain straight_map 4 (car 5 0 5) st" for st
    using no_arc_25 by (auto simp: advanced_along_chain_def car_def straight_map_def)
  then have "\<not> projects_as_claimed four_seconds 0 straight_map fast_car follow_8
       [(0, ego_final), (1, car 20 0 5)]"
    by (auto simp: projects_as_claimed_def fast_car_def four_seconds_def)
  with play_fast_car show ?thesis by simp
qed

lemma ne_if_missing: "x \<in> B \<Longrightarrow> x \<notin> A \<Longrightarrow> A \<noteq> B"
  by blast

text \<open>
  C9 (as amended). In the frame that forward projection returns for a macro action that is
  given, the ego id is always present, and another id is present exactly when it is an id of
  the input frame whose agent has a best lane at its position and heading; an agent without
  one is left out, so the ids of the result can be a proper subset of those of the input.
  For a macro action that is \<^verbatim>\<open>None\<close> (or otherwise false) the input frame is returned as
  it is.
\<close>

theorem projected_frame_ids:
  assumes dist: "distinct (map fst fr)"
    and play: "play_forward_macro_action ext ego m fr (Some ma) = Some (Inr nf)"
  shows "ego \<in> fst ` set nf \<and>
     (\<forall>a. a \<noteq> ego \<longrightarrow>
        (a \<in> fst ` set nf \<longleftrightarrow>
         (\<exists>agent. map_of fr a = Some agent \<and>
            best_lane_at m (position agent) (heading agent) \<noteq> None))) \<and>
     (\<exists>ext' ego' m' fr' ma' nf'. distinct (map fst fr') \<and>
        play_forward_macro_action ext' ego' m' fr' (Some ma') = Some (Inr nf') \<and>
        fst ` set nf' \<subset> fst ` set fr') \<and>
     play_forward_macro_action ext ego m fr None = Some (Inr fr)"
proof -
  have unchanged: "play_forward_macro_action ext ego m fr None = Some (Inr fr)"
    by (simp add: play_forward_macro_action_def)
  from play obtain trajectory where
    nf: "project_agents ego m (duration ext trajectory) fr
          [(ego, final_agent_state ext trajectory)] = Some (Inr nf)"
    by (auto simp: play_forward_Some)
  from project_agents_keys [OF nf] dist
  have ids: "ego \<in> fst ` set nf \<and>
     (\<forall>a. a \<noteq> ego \<longrightarrow>
        (a \<in> fst ` set nf \<longleftrightarrow>
         (\<exists>agent. map_of fr a = Some agent \<and>
            best_lane_at m (position agent) (heading agent) \<noteq> None)))"
    by auto
  have "fst ` set [(0::int, ego_final), (1, car 13 0 2)] \<subseteq> fst ` set three_cars"
    by (simp add: three_cars_def)
  moreover have "2 \<in> fst ` set three_cars" by (simp add: three_cars_def)
  moreover have "2 \<notin> fst ` set [(0::int, ego_final), (1, car 13 0 2)]" by simp
  ultimately have "fst ` set [(0::int, ego_final), (1, car 13 0 2)] \<subset> fst ` set three_cars"
    by (rule psubsetI [OF _ ne_if_missing])
  with distinct_three_cars play_three_cars
  have "distinct (map fst three_cars) \<and>
        play_forward_macro_action four_seconds 0 straight_map three_cars (Some follow_8) =
          Some (Inr [(0, ego_final), (1, car 13 0 2)]) \<and>
        fst ` set [(0::int, ego_final), (1, car 13 0 2)] \<subset> fst ` set three_cars"
    by simp
  then have strict: "\<exists>ext' ego' m' fr' ma' nf'. distinct (map fst fr') \<and>
        play_forward_macro_action ext' ego' m' fr' (Some ma') = Some (Inr nf') \<and>
        fst ` set nf' \<subset> fst ` set fr'"
    by (intro exI)
  from ids have "ego \<in> fst ` set nf" ..
  moreover from ids have "\<forall>a. a \<noteq> ego \<longrightarrow>
        (a \<in> fst ` set nf \<longleftrightarrow>
         (\<exists>agent. map_of fr a = Some agent \<and>
            best_lane_at m (position agent) (heading agent) \<noteq> None))" ..
  ultimately show ?thesis using strict unchanged by (intro conjI)
qed

theorem projected_frame_ids_witness:
  "distinct (map fst three_cars) \<and>
   play_forward_macro_action four_seconds 0 straight_map three_cars (Some follow_8) =
     Some (Inr [(0, ego_final), (1, car 13 0 2)]) \<and>
   map_of three_cars 2 = Some (car 50 50 2) \<and>
   best_lane_at straight_map (position (car 50 50 2)) (heading (car 50 50 2)) = None \<and>
   2 \<notin> fst ` set [(0::int, ego_final), (1, car 13 0 2)] \<and>
   0 \<in> fst ` set [(0::int, ego_final), (1, car 13 0 2)] \<and>
   fst ` set [(0::int, ego_final), (1, car 13 0 2)] \<subset> fst ` set three_cars"
proof -
  note ids = projected_frame_ids [OF distinct_three_cars play_three_cars]
  have no_lane: "best_lane_at straight_map (position (car 50 50 2)) (heading (car 50 50 2)) = None"
    by (simp add: car_def straight_map_def)
  have two: "map_of three_cars 2 = Some (car 50 50 2)" by (simp add: three_cars_def)
  from ids two no_lane have out: "2 \<notin> fst ` set [(0::int, ego_final), (1, car 13 0 2)]"
    by simp
  from ids have ego: "0 \<in> fst ` set [(0::int, ego_final), (1, car 13 0 2)]" by blast
  have "fst ` set [(0::int, ego_final), (1, car 13 0 2)] \<subseteq> fst ` set three_cars"
    by (simp add: three_cars_def)
  moreover have "2 \<in> fst ` set three_cars" by (simp add: three_cars_def)
  ultimately have "fst ` set [(0::int, ego_final), (1, car 13 0 2)] \<subset> fst ` set three_cars"
    using out by blast
  with distinct_three_cars play_three_cars two no_lane out ego show ?thesis by blast
qed

text \<open>
  As first stated, for every call, the claim fails where the macro action is \<^verbatim>\<open>None\<close>: the
  frame comes back as it went in, here without the ego id 0 and with an agent that has no
  lane.
\<close>

theorem projected_frame_ids_counterexample:
  "play_forward_macro_action four_seconds 0 straight_map [(2, car 50 50 2)] None =
     Some (Inr [(2, car 50 50 2)]) \<and>
   0 \<notin> fst ` set [(2::int, car 50 50 2)] \<and>
   2 \<in> fst ` set [(2::int, car 50 50 2)] \<and>
   best_lane_at straight_map (position (car 50 50 2)) (heading (car 50 50 2)) = None"
  by (simp add: play_forward_macro_action_def car_def straight_map_def)

subsection \<open>The current maneuver of a macro action\<close>

lemma MacroAction_init_Inr:
  "MacroAction_init get_maneuvers aid fr ol = Inr ma \<Longrightarrow>
   \<exists>ms ff. get_maneuvers aid fr ol = Inr (ms, ff) \<and>
     ma = \<lparr>open_loop = ol, agent_id = aid, start_frame = fr, final_frame = ff,
           maneuvers = Some ms, current_maneuver = NoneRef\<rparr>"
  by (auto simp: MacroAction_init_def split: sum.splits)

lemma next_action_NoneRef:
  "current_maneuver ma = NoneRef \<Longrightarrow> next_action ext ma fr = (ma, Inl AttributeError)"
  by (simp add: next_action_def)

lemma next_actions_NoneRef:
  "current_maneuver ma = NoneRef \<Longrightarrow> next_actions ext ma frs = ma"
  by (induction frs) (simp_all add: next_action_NoneRef)

text \<open>
  The assignment in \<^verbatim>\<open>next_action\<close>, were the current maneuver ever a maneuver that is done:
  the attribute becomes the list \<^verbatim>\<open>self._maneuvers[1:]\<close>, and the call raises.
\<close>

lemma next_action_assigns_list:
  "current_maneuver ma = OneManeuver mv \<Longrightarrow> maneuver_done ext mv fr \<Longrightarrow>
   maneuvers ma = Some ms \<Longrightarrow>
   next_action ext ma fr = (ma\<lparr>current_maneuver := ManeuverList (tl ms)\<rparr>, Inl AttributeError)"
  by (simp add: next_action_def)

lemma init_one_follow: "MacroAction_init one_follow 0 [(0, car 0 0 2)] True = Inr follow_8"
  by (simp add: MacroAction_init_def one_follow_def follow_8_def)

text \<open>
  C7 (as amended). A constructed macro action holds the maneuver sequence its
  \<^verbatim>\<open>get_maneuvers\<close> computed, and its current-maneuver reference is \<^verbatim>\<open>None\<close>: there is no
  cursor, closed-loop execution not being implemented. Every \<^verbatim>\<open>next_action\<close> call on it
  raises \<^verbatim>\<open>AttributeError\<close> and leaves the object as it was, so the reference is \<^verbatim>\<open>None\<close>
  after any number of calls and the maneuver sequence is never changed.
\<close>

theorem current_maneuver_is_None:
  assumes "MacroAction_init get_maneuvers aid fr ol = Inr ma"
  shows "current_maneuver ma = NoneRef \<and>
     (\<exists>ms ff. get_maneuvers aid fr ol = Inr (ms, ff) \<and> maneuvers ma = Some ms) \<and>
     next_action ext ma observed = (ma, Inl AttributeError) \<and>
     next_actions ext ma frs = ma \<and>
     current_maneuver (next_actions ext ma frs) = NoneRef"
proof -
  from MacroAction_init_Inr [OF assms] obtain ms ff where
    g: "get_maneuvers aid fr ol = Inr (ms, ff)" and
    ma: "ma = \<lparr>open_loop = ol, agent_id = aid, start_frame = fr, final_frame = ff,
           maneuvers = Some ms, current_maneuver = NoneRef\<rparr>"
    by blast
  from ma have none: "current_maneuver ma = NoneRef" by simp
  moreover from g ma have "\<exists>ms ff. get_maneuvers aid fr ol = Inr (ms, ff) \<and> maneuvers ma = Some ms"
    by simp
  moreover note next_action_NoneRef [OF none, of ext observed]
  moreover note next_actions_NoneRef [OF none, of ext frs]
  ultimately show ?thesis by simp
qed

theorem current_maneuver_is_None_witness:
  "MacroAction_init one_follow 0 [(0, car 0 0 2)] True = Inr follow_8 \<and>
   maneuvers follow_8 = Some [\<lparr>path = [(0, 0), (8, 0)], velocity = [2, 2]\<rparr>] \<and>
   next_action four_seconds follow_8 three_cars = (follow_8, Inl AttributeError) \<and>
   next_actions four_seconds follow_8 [three_cars, fast_car] = follow_8"
proof -
  note t = current_maneuver_is_None [OF init_one_follow, of four_seconds three_cars
      "[three_cars, fast_car]"]
  have "maneuvers follow_8 = Some [\<lparr>path = [(0, 0), (8, 0)], velocity = [2, 2]\<rparr>]"
    by (simp add: follow_8_def)
  with t init_one_follow show ?thesis by blast
qed

text \<open>
  As first stated the claim fails on every constructed macro action: the reference is
  \<^verbatim>\<open>None\<close> from the constructor on, and stays so after a \<^verbatim>\<open>next_action\<close> call.
\<close>

theorem current_maneuver_counterexample:
  "MacroAction_init one_follow 0 [(0, car 0 0 2)] True = Inr follow_8 \<and>
   current_maneuver follow_8 = NoneRef \<and>
   current_maneuver (fst (next_action four_seconds follow_8 three_cars)) = NoneRef"
  using init_one_follow by (simp add: follow_8_def next_action_def)

subsection \<open>Applicability of a lane change\<close>

lemma min_by_distance_mem: "min_by_distance b xs \<in> set (b # xs)"
  by (induction xs arbitrary: b) (auto split: if_splits)

lemma min_by_distance_le_best: "fst (min_by_distance b xs) \<le> fst b"
proof (induction xs arbitrary: b)
  case Nil
  then show ?case by simp
next
  case (Cons x xs)
  show ?case using Cons [of "if fst x < fst b then x else b"] by (auto split: if_splits)
qed

lemma min_by_distance_least: "x \<in> set (b # xs) \<Longrightarrow> fst (min_by_distance b xs) \<le> fst x"
proof (induction xs arbitrary: b)
  case Nil
  then show ?case by simp
next
  case (Cons y ys)
  show ?case
  proof (cases "x = b")
    case True
    then show ?thesis using min_by_distance_le_best [of b "y # ys"] by simp
  next
    case False
    with Cons.prems have "x \<in> set (y # ys)" by simp
    then have "x \<in> set ((if fst y < fst b then y else b) # ys) \<or> (x = y \<and> \<not> fst y < fst b)"
      by auto
    then show ?thesis
    proof
      assume "x \<in> set ((if fst y < fst b then y else b) # ys)"
      from Cons.IH [OF this] show ?thesis by simp
    next
      assume "x = y \<and> \<not> fst y < fst b"
      then show ?thesis
        using min_by_distance_le_best [of b ys] by simp
    qed
  qed
qed

lemma nearest_successor_of_nearest:
  assumes "nearest_successor_of m s l0 succs = (d, n)"
  shows "n \<in> set (l0 # succs) \<and> d = boundary_distance m n (position s) \<and>
     (\<forall>k \<in> set (l0 # succs). d \<le> boundary_distance m k (position s))"
proof -
  let ?f = "\<lambda>sl. (boundary_distance m sl (position s), sl)"
  from assms have mb: "min_by_distance (?f l0) (map ?f succs) = (d, n)"
    by (simp add: nearest_successor_of_def)
  have "min_by_distance (?f l0) (map ?f succs) \<in> set (?f l0 # map ?f succs)"
    by (rule min_by_distance_mem)
  with mb have "(d, n) \<in> ?f ` set (l0 # succs)" by simp
  then have a: "n \<in> set (l0 # succs) \<and> d = boundary_distance m n (position s)" by auto
  have "d \<le> boundary_distance m k (position s)" if "k \<in> set (l0 # succs)" for k
  proof -
    from that have "?f k \<in> set (?f l0 # map ?f succs)" by auto
    from min_by_distance_least [OF this] mb show ?thesis by simp
  qed
  with a show ?thesis by blast
qed

lemma ChangeLaneLeft_applicable_iff:
  "ChangeLaneLeft_applicable c m s = Inr (Some True) \<longleftrightarrow>
     SwitchLane_applicable m True s \<and> check_change_validity c m s = Inr (Some True)"
  by (simp add: ChangeLaneLeft_applicable_def)

lemma ChangeLaneRight_applicable_iff:
  "ChangeLaneRight_applicable c m s = Inr (Some True) \<longleftrightarrow>
     SwitchLane_applicable m False s \<and> check_change_validity c m s = Inr (Some True)"
  by (simp add: ChangeLaneRight_applicable_def)

lemma SwitchLane_applicable_iff:
  "SwitchLane_applicable m left s \<longleftrightarrow>
     (\<exists>cl tl. best_lane_at m (position s) (heading s) = Some cl \<and>
        get_target_lane m left cl = Some tl \<and> lane_id m tl \<noteq> 0)"
  by (auto simp: SwitchLane_applicable_def split: option.splits)

lemma validity_in_junction:
  "junction_at m (position s) \<noteq> None \<Longrightarrow> check_change_validity c m s = Inr (Some False)"
  by (simp add: check_change_validity_def)

lemma validity_no_successor:
  "junction_at m (position s) = None \<Longrightarrow> best_lane_at m (position s) (heading s) = Some cl \<Longrightarrow>
   successor m cl = None \<Longrightarrow> check_change_validity c m s = Inr (Some True)"
  by (simp add: check_change_validity_def)

lemma validity_near_junction:
  assumes "junction_at m (position s) = None"
    and "best_lane_at m (position s) (heading s) = Some cl"
    and "successor m cl = Some (l0 # succs)"
    and "nearest_successor_of m s l0 succs = (d, n)"
  shows "check_change_validity c m s = Inr (Some True) \<longleftrightarrow>
     (if list_all (\<lambda>ln. length (all_lanes m ln) \<le> 2) (l0 # succs)
      then d > MIN_SWITCH_LENGTH c
      else road_junction m (parent_road m n) \<noteq> None \<and>
           (d > TARGET_SWITCH_LENGTH c \<or> road_in_roundabout m (parent_road m cl)))"
  using assms by (auto simp: check_change_validity_def nearest_successor_of_def)

lemma two_lane_fields:
  "best_lane_at two_lane_map (x, 0) h = Some 11"
  "junction_at two_lane_map (x, y) = (if 30 < x then Some 1 else None)"
  "successor two_lane_map 11 = Some [20]"
  "get_target_lane two_lane_map True 11 = Some 10"
  "get_target_lane two_lane_map False 11 = None"
  "lane_id two_lane_map 10 = - 1"
  "boundary_distance two_lane_map l (x, y) = 30 - x"
  "all_lanes two_lane_map 20 = [20, 21, 22]"
  "road_junction two_lane_map (parent_road two_lane_map 20) = Some 1"
  "road_in_roundabout two_lane_map r = False"
  by (simp_all add: two_lane_map_def straight_map_def get_target_lane_def)

text \<open>
  C4. \<^verbatim>\<open>ChangeLaneLeft.applicable\<close> (and likewise \<^verbatim>\<open>ChangeLaneRight.applicable\<close>) is true
  exactly when a target lane exists on that side, its id is not 0, and the validity check
  is true. The validity check is false inside a junction. For a lane with successors it is
  true exactly when the distance to the nearest successor exceeds the minimum switch length
  if every successor's section has at most two lanes, and otherwise when the nearest
  successor is on a junction road and the distance exceeds the target switch length or the
  current road is in a roundabout. For a lane without successors it is true.
\<close>

theorem change_lane_applicable_iff:
  "(ChangeLaneLeft_applicable c m s = Inr (Some True) \<longleftrightarrow>
      (\<exists>cl tl. best_lane_at m (position s) (heading s) = Some cl \<and>
         get_target_lane m True cl = Some tl \<and> lane_id m tl \<noteq> 0) \<and>
      check_change_validity c m s = Inr (Some True)) \<and>
   (ChangeLaneRight_applicable c m s = Inr (Some True) \<longleftrightarrow>
      (\<exists>cl tl. best_lane_at m (position s) (heading s) = Some cl \<and>
         get_target_lane m False cl = Some tl \<and> lane_id m tl \<noteq> 0) \<and>
      check_change_validity c m s = Inr (Some True)) \<and>
   (junction_at m (position s) \<noteq> None \<longrightarrow> check_change_validity c m s = Inr (Some False)) \<and>
   (junction_at m (position s) = None \<and> best_lane_at m (position s) (heading s) = Some cl \<and>
    successor m cl = Some (l0 # succs) \<and> nearest_successor_of m s l0 succs = (d, n) \<longrightarrow>
      n \<in> set (l0 # succs) \<and> d = boundary_distance m n (position s) \<and>
      (\<forall>k \<in> set (l0 # succs). d \<le> boundary_distance m k (position s)) \<and>
      (check_change_validity c m s = Inr (Some True) \<longleftrightarrow>
         (if list_all (\<lambda>ln. length (all_lanes m ln) \<le> 2) (l0 # succs)
          then d > MIN_SWITCH_LENGTH c
          else road_junction m (parent_road m n) \<noteq> None \<and>
               (d > TARGET_SWITCH_LENGTH c \<or> road_in_roundabout m (parent_road m cl))))) \<and>
   (junction_at m (position s) = None \<and> best_lane_at m (position s) (heading s) = Some cl \<and>
    successor m cl = None \<longrightarrow> check_change_validity c m s = Inr (Some True))"
  using validity_no_successor [of m s cl c] ChangeLaneLeft_applicable_iff [of c m s] ChangeLaneRight_applicable_iff [of c m s]
    SwitchLane_applicable_iff [of m True s] SwitchLane_applicable_iff [of m False s]
    validity_in_junction [of m s c] validity_near_junction [of m s cl l0 succs d n c]
    nearest_successor_of_nearest [of m s l0 succs d n]
  by blast


theorem change_lane_applicable_iff_witness:
  "ChangeLaneLeft_applicable lengths_5_20 two_lane_map (car 0 0 2) = Inr (Some True) \<and>
   best_lane_at two_lane_map (position (car 0 0 2)) (heading (car 0 0 2)) = Some 11 \<and>
   get_target_lane two_lane_map True 11 = Some 10 \<and> lane_id two_lane_map 10 = - 1 \<and>
   get_target_lane two_lane_map False 11 = None \<and>
   ChangeLaneRight_applicable lengths_5_20 two_lane_map (car 0 0 2) \<noteq> Inr (Some True) \<and>
   nearest_successor_of two_lane_map (car 0 0 2) 20 [] = (30, 20) \<and>
   check_change_validity lengths_5_20 two_lane_map (car 0 0 2) = Inr (Some True) \<and>
   nearest_successor_of two_lane_map (car 15 0 2) 20 [] = (15, 20) \<and>
   check_change_validity lengths_5_20 two_lane_map (car 15 0 2) \<noteq> Inr (Some True) \<and>
   junction_at two_lane_map (position (car 31 0 2)) = Some 1 \<and>
   check_change_validity lengths_5_20 two_lane_map (car 31 0 2) = Inr (Some False)"
proof -
  have n0: "nearest_successor_of two_lane_map (car 0 0 2) 20 [] = (30, 20)"
    and n15: "nearest_successor_of two_lane_map (car 15 0 2) 20 [] = (15, 20)"
    by (simp_all add: nearest_successor_of_def two_lane_fields car_fields)
  note a = change_lane_applicable_iff [where c = lengths_5_20 and m = two_lane_map and s = "car 0 0 2"
      and cl = 11 and ?l0.0 = 20 and succs = "[]" and d = 30 and n = 20]
  note b = change_lane_applicable_iff [where c = lengths_5_20 and m = two_lane_map and s = "car 15 0 2"
      and cl = 11 and ?l0.0 = 20 and succs = "[]" and d = 15 and n = 20]
  note c = change_lane_applicable_iff [where c = lengths_5_20 and m = two_lane_map and s = "car 31 0 2"
      and cl = 11 and ?l0.0 = 20 and succs = "[]" and d = 30 and n = 20]
  have va: "check_change_validity lengths_5_20 two_lane_map (car 0 0 2) = Inr (Some True)"
    using a n0 by (simp add: two_lane_fields car_fields lengths_5_20_def)
  have vb: "check_change_validity lengths_5_20 two_lane_map (car 15 0 2) \<noteq> Inr (Some True)"
    using b n15 by (simp add: two_lane_fields car_fields lengths_5_20_def)
  have vc: "check_change_validity lengths_5_20 two_lane_map (car 31 0 2) = Inr (Some False)"
    using c by (simp add: two_lane_fields car_fields)
  have left: "ChangeLaneLeft_applicable lengths_5_20 two_lane_map (car 0 0 2) = Inr (Some True)"
    using a va by (simp add: two_lane_fields car_fields)
  have right: "ChangeLaneRight_applicable lengths_5_20 two_lane_map (car 0 0 2) \<noteq> Inr (Some True)"
    using a by (simp add: two_lane_fields car_fields)
  from left right va vb vc n0 n15 show ?thesis
    by (simp add: two_lane_fields car_fields)
qed

subsection \<open>Turn targets\<close>

lemma no_close_pair_snoc:
  "no_close_pair (ts @ [t]) \<longleftrightarrow> no_close_pair ts \<and> (\<forall>p \<in> set ts. \<not> allclose p t (1 / 4))"
  by (induction ts) (auto simp: list_all_iff)

lemma allclose_refl: "allclose p p (1 / 4)"
  by (simp add: allclose_def)

lemma collect_targets_subset:
  "set (collect_targets m ts lanes) \<subseteq> set ts \<union> midline_end m ` set lanes"
proof (induction lanes arbitrary: ts)
  case Nil
  then show ?case by simp
next
  case (Cons la lanes)
  let ?ts' = "if \<not> list_ex (\<lambda>p. allclose p (midline_end m la) (1 / 4)) ts
        then ts @ [midline_end m la] else ts"
  have "set ?ts' \<subseteq> set ts \<union> {midline_end m la}" by auto
  with Cons [of ?ts'] have "set (collect_targets m ?ts' lanes) \<subseteq>
      set ts \<union> {midline_end m la} \<union> midline_end m ` set lanes" by blast
  then show ?case by auto
qed

lemma collect_targets_keeps: "set ts \<subseteq> set (collect_targets m ts lanes)"
proof (induction lanes arbitrary: ts)
  case Nil
  then show ?case by simp
next
  case (Cons la lanes)
  show ?case
    using Cons [of ts] Cons [of "ts @ [midline_end m la]"] by auto
qed

lemma collect_targets_apart:
  "no_close_pair ts \<Longrightarrow> no_close_pair (collect_targets m ts lanes)"
proof (induction lanes arbitrary: ts)
  case Nil
  then show ?case by simp
next
  case (Cons la lanes)
  show ?case
  proof (cases "list_ex (\<lambda>p. allclose p (midline_end m la) (1 / 4)) ts")
    case True
    then show ?thesis using Cons by simp
  next
    case False
    then have "no_close_pair (ts @ [midline_end m la])"
      using Cons.prems by (simp add: no_close_pair_snoc list_ex_iff)
    from Cons.IH [OF this] False show ?thesis by simp
  qed
qed

lemma collect_targets_covers:
  "la \<in> set lanes \<Longrightarrow>
   \<exists>p \<in> set (collect_targets m ts lanes). allclose p (midline_end m la) (1 / 4)"
proof (induction lanes arbitrary: ts)
  case Nil
  then show ?case by simp
next
  case (Cons x lanes)
  let ?ts' = "if \<not> list_ex (\<lambda>p. allclose p (midline_end m x) (1 / 4)) ts
        then ts @ [midline_end m x] else ts"
  have step: "collect_targets m ts (x # lanes) = collect_targets m ?ts' lanes" by simp
  show ?case
  proof (cases "la = x")
    case True
    have "\<exists>p \<in> set ?ts'. allclose p (midline_end m x) (1 / 4)"
    proof (cases "list_ex (\<lambda>p. allclose p (midline_end m x) (1 / 4)) ts")
      case True
      then show ?thesis by (simp add: list_ex_iff)
    next
      case False
      then show ?thesis using allclose_refl [of "midline_end m x"] by simp
    qed
    then obtain p where "p \<in> set ?ts'" "allclose p (midline_end m x) (1 / 4)" by blast
    with collect_targets_keeps [of ?ts' m lanes] True show ?thesis
      unfolding step by blast
  next
    case False
    with Cons.prems have "la \<in> set lanes" by simp
    from Cons.IH [OF this, of ?ts'] show ?thesis unfolding step .
  qed
qed

lemma argmin_from_least:
  assumes "drop j ds = xs" and "i < j" and "j \<le> length ds" and "ds ! i = best"
    and "\<forall>q \<in> set (take j ds). best \<le> q"
  shows "argmin_from best i j xs < length ds \<and> (\<forall>q \<in> set ds. ds ! argmin_from best i j xs \<le> q)"
  using assms
proof (induction xs arbitrary: best i j)
  case Nil
  then have "take j ds = ds" by simp
  with Nil show ?case by auto
next
  case (Cons x xs)
  from Cons.prems(1) have j: "j < length ds" by (metis drop_all leI list.distinct(1))
  with Cons.prems(1) have x: "ds ! j = x" by (metis nth_via_drop)
  from Cons.prems(1) have d: "drop (Suc j) ds = xs" by (metis drop_Suc tl_drop list.sel(3))
  have t: "take (Suc j) ds = take j ds @ [x]" using j x by (simp add: take_Suc_conv_app_nth)
  show ?case
  proof (cases "x < best")
    case True
    have "\<forall>q \<in> set (take (Suc j) ds). x \<le> q" using Cons.prems(5) True t by auto
    from Cons.IH [OF d _ _ x this] j True show ?thesis by simp
  next
    case False
    have "\<forall>q \<in> set (take (Suc j) ds). best \<le> q" using Cons.prems(5) False t by auto
    from Cons.IH [OF d _ _ Cons.prems(4) this] j Cons.prems(2) False show ?thesis by simp
  qed
qed

lemma argmin_first_least:
  "argmin_from x 0 1 xs < length (x # xs) \<and>
   (\<forall>q \<in> set (x # xs). (x # xs) ! argmin_from x 0 1 xs \<le> q)"
  using argmin_from_least [of 1 "x # xs" xs 0 x] by simp

lemma update_macro_action_args_nearest:
  assumes "Exit_get_possible_args m s (Some goal) = Inr ts"
  shows "if length ts > 1
     then \<exists>t. update_macro_action_args m s goal = Inr [t] \<and> t \<in> set ts \<and>
            (\<forall>q \<in> set ts. distance t goal \<le> distance q goal)
     else update_macro_action_args m s goal = Inr ts"
proof (cases "length ts > 1")
  case False
  with assms show ?thesis by (simp add: update_macro_action_args_def)
next
  case True
  then obtain p ps where ts: "ts = p # ps" by (cases ts) auto
  let ?f = "\<lambda>p. distance p goal"
  let ?k = "argmin_from (?f p) 0 1 (map ?f ps)"
  from argmin_first_least [of "?f p" "map ?f ps"]
  have k: "?k < length ts" and least: "\<forall>q \<in> set (map ?f ts). (map ?f ts) ! ?k \<le> q"
    by (simp_all add: ts)
  from k have "(map ?f ts) ! ?k = ?f (ts ! ?k)" by simp
  with least have "\<forall>q \<in> set ts. ?f (ts ! ?k) \<le> ?f q" by simp
  moreover have "update_macro_action_args m s goal = Inr [ts ! ?k]"
    using assms True ts by (simp add: update_macro_action_args_def)
  moreover have "ts ! ?k \<in> set ts" using k by simp
  ultimately show ?thesis using True by auto
qed


lemma junction_fields:
  "junction_at junction_map p = Some 1"
  "lanes_within_angle junction_map (x, y) h a d = (if x = 0 then [30, 31, 32] else [])"
  "best_drivable_lane_at junction_map p h = Some 33"
  "midline_end junction_map 30 = (10, 0)"
  "midline_end junction_map 31 = (101 / 10, 1 / 10)"
  "midline_end junction_map 32 = (0, 10)"
  "midline_end junction_map 33 = (5, 5)"
  by (simp_all add: junction_map_def)

lemma approach_fields:
  "junction_at approach_map p = None"
  "best_lane_at approach_map (0, 0) h = Some 0"
  "successor approach_map 0 = Some [40, 41, 42]"
  by (simp_all add: approach_map_def straight_map_def)

lemma args_in_junction:
  "Exit_get_possible_args junction_map (car 0 0 2) g = Inr [(10, 0), (0, 10)]"
  by (simp add: Exit_get_possible_args_def junction_fields car_fields allclose_def)

lemma args_fallback:
  "Exit_get_possible_args junction_map (car 1 0 2) g = Inr [(5, 5)]"
  by (simp add: Exit_get_possible_args_def junction_fields car_fields)

lemma args_approach:
  "Exit_get_possible_args approach_map (car 0 0 2) g = Inr [(20, 5), (20, - 5)]"
  by (simp add: Exit_get_possible_args_def approach_fields car_fields)
     (simp add: approach_map_def straight_map_def)

lemma args_chosen:
  "update_macro_action_args approach_map (car 0 0 2) (26, - 4) = Inr [(20, - 5)]"
  by (simp add: update_macro_action_args_def args_approach distance_def)

text \<open>
  C5 (as amended). Inside a junction \<^verbatim>\<open>Exit.get_possible_args\<close> returns endpoints of the
  lanes within the heading-angle threshold, none of them within the tolerance of an earlier
  one and every such lane's endpoint within the tolerance of a returned one; when no lane is
  within the threshold it returns the endpoint of the best drivable lane instead. Outside a
  junction it returns the endpoint of every successor lane whose road is not in a
  roundabout. It never reads the goal point: it is \<^verbatim>\<open>MacroAgent.update_macro_action\<close> that,
  given more than one target, keeps only the one nearest the goal.
\<close>

theorem exit_possible_args:
  "(junction_at m (position s) \<noteq> None \<and>
    lanes_within_angle m (position s) (heading s) (pi / 9) (1 / 2) = lanes \<and> lanes \<noteq> [] \<longrightarrow>
      (\<exists>ts. Exit_get_possible_args m s g = Inr ts \<and>
         set ts \<subseteq> midline_end m ` set lanes \<and> no_close_pair ts \<and>
         (\<forall>la \<in> set lanes. \<exists>p \<in> set ts. allclose p (midline_end m la) (1 / 4)))) \<and>
   (junction_at m (position s) \<noteq> None \<and>
    lanes_within_angle m (position s) (heading s) (pi / 9) (1 / 2) = [] \<and>
    best_drivable_lane_at m (position s) (heading s) = Some la0 \<longrightarrow>
      Exit_get_possible_args m s g = Inr [midline_end m la0]) \<and>
   (junction_at m (position s) = None \<and> best_lane_at m (position s) (heading s) = Some cl \<and>
    successor m cl = Some succs \<longrightarrow>
      Exit_get_possible_args m s g =
        Inr (map (midline_end m)
              (filter (\<lambda>la. \<not> road_in_roundabout m (parent_road m la)) succs))) \<and>
   Exit_get_possible_args m s g = Exit_get_possible_args m s None \<and>
   (Exit_get_possible_args m s (Some goal) = Inr targets \<longrightarrow>
      (if length targets > 1
       then \<exists>t. update_macro_action_args m s goal = Inr [t] \<and> t \<in> set targets \<and>
              (\<forall>q \<in> set targets. distance t goal \<le> distance q goal)
       else update_macro_action_args m s goal = Inr targets))"
proof (intro conjI impI)
  assume a: "junction_at m (position s) \<noteq> None \<and>
    lanes_within_angle m (position s) (heading s) (pi / 9) (1 / 2) = lanes \<and> lanes \<noteq> []"
  then have r: "Exit_get_possible_args m s g = Inr (collect_targets m [] lanes)"
    by (cases lanes) (auto simp: Exit_get_possible_args_def)
  have "set (collect_targets m [] lanes) \<subseteq> midline_end m ` set lanes"
    using collect_targets_subset [of m "[]" lanes] by simp
  moreover have "no_close_pair (collect_targets m [] lanes)"
    by (rule collect_targets_apart) simp
  moreover have "\<forall>la \<in> set lanes. \<exists>p \<in> set (collect_targets m [] lanes).
      allclose p (midline_end m la) (1 / 4)"
    using collect_targets_covers [of _ lanes m "[]"] by blast
  ultimately show "\<exists>ts. Exit_get_possible_args m s g = Inr ts \<and>
         set ts \<subseteq> midline_end m ` set lanes \<and> no_close_pair ts \<and>
         (\<forall>la \<in> set lanes. \<exists>p \<in> set ts. allclose p (midline_end m la) (1 / 4))"
    using r by blast
next
  assume "junction_at m (position s) \<noteq> None \<and>
    lanes_within_angle m (position s) (heading s) (pi / 9) (1 / 2) = [] \<and>
    best_drivable_lane_at m (position s) (heading s) = Some la0"
  then show "Exit_get_possible_args m s g = Inr [midline_end m la0]"
    by (auto simp: Exit_get_possible_args_def)
next
  assume "junction_at m (position s) = None \<and> best_lane_at m (position s) (heading s) = Some cl \<and>
    successor m cl = Some succs"
  then show "Exit_get_possible_args m s g =
        Inr (map (midline_end m)
              (filter (\<lambda>la. \<not> road_in_roundabout m (parent_road m la)) succs))"
    by (simp add: Exit_get_possible_args_def)
next
  show "Exit_get_possible_args m s g = Exit_get_possible_args m s None"
    by (simp add: Exit_get_possible_args_def)
next
  assume "Exit_get_possible_args m s (Some goal) = Inr targets"
  then show "if length targets > 1
       then \<exists>t. update_macro_action_args m s goal = Inr [t] \<and> t \<in> set targets \<and>
              (\<forall>q \<in> set targets. distance t goal \<le> distance q goal)
       else update_macro_action_args m s goal = Inr targets"
    by (rule update_macro_action_args_nearest)
qed

theorem exit_possible_args_witness:
  "junction_at junction_map (position (car 0 0 2)) = Some 1 \<and>
   lanes_within_angle junction_map (position (car 0 0 2)) (heading (car 0 0 2)) (pi / 9) (1 / 2)
     = [30, 31, 32] \<and>
   Exit_get_possible_args junction_map (car 0 0 2) None = Inr [(10, 0), (0, 10)] \<and>
   no_close_pair [(10, 0), (0, 10)] \<and>
   allclose (10, 0) (midline_end junction_map 31) (1 / 4) \<and>
   Exit_get_possible_args approach_map (car 0 0 2) (Some (26, - 4)) = Inr [(20, 5), (20, - 5)] \<and>
   update_macro_action_args approach_map (car 0 0 2) (26, - 4) = Inr [(20, - 5)] \<and>
   distance (20, - 5) (26, - 4) \<le> distance (20, 5) (26, - 4)"
proof -
  note j = exit_possible_args [where m = junction_map and s = "car 0 0 2" and g = None
      and lanes = "[30, 31, 32]" and ?la0.0 = 33 and cl = 0 and succs = "[]"
      and goal = "(26, - 4)" and targets = "[(10, 0), (0, 10)]"]
  note a = exit_possible_args [where m = approach_map and s = "car 0 0 2" and g = "Some (26, - 4)"
      and lanes = "[]" and ?la0.0 = 33 and cl = 0 and succs = "[40, 41, 42]"
      and goal = "(26, - 4)" and targets = "[(20, 5), (20, - 5)]"]
  from j have "no_close_pair [(10, 0), (0, 10)]"
    using args_in_junction [of None] by (auto simp: junction_fields car_fields)
  moreover from a args_approach [of "Some (26, - 4)"] args_chosen
  have "distance (20, - 5) (26, - 4) \<le> distance (20, 5) (26, - 4)" by auto
  moreover have "allclose (10, 0) (midline_end junction_map 31) (1 / 4)"
    by (simp add: junction_fields allclose_def)
  ultimately show ?thesis
    using args_in_junction [of None] args_approach [of "Some (26, - 4)"] args_chosen
    by (simp add: junction_fields car_fields)
qed

text \<open>
  As first stated the claim fails in two places: with no lane within the angle threshold the
  result is not empty but the endpoint of the best drivable lane, and a goal point passed to
  \<^verbatim>\<open>get_possible_args\<close> itself leaves both targets in the result.
\<close>

theorem exit_possible_args_counterexample:
  "junction_at junction_map (position (car 1 0 2)) = Some 1 \<and>
   lanes_within_angle junction_map (position (car 1 0 2)) (heading (car 1 0 2)) (pi / 9) (1 / 2)
     = [] \<and>
   Exit_get_possible_args junction_map (car 1 0 2) None = Inr [(5, 5)] \<and>
   Exit_get_possible_args approach_map (car 0 0 2) (Some (26, - 4)) = Inr [(20, 5), (20, - 5)]"
  using args_fallback [of None] args_approach [of "Some (26, - 4)"]
  by (simp add: junction_fields car_fields)


subsection \<open>Gap analysis\<close>

lemma oncoming_loop_step:
  "oncoming_loop c m tm seq ego st ((aid, agent) # items) ivs =
     (if equal_speed_neighbour c m tm seq ego st aid agent then Inl RuntimeError
      else oncoming_loop c m tm seq ego st items (ivs @ interval_of c m tm seq ego st aid agent))"
proof (cases "ego = aid")
  case True
  then show ?thesis by (simp add: equal_speed_neighbour_def interval_of_def Let_def)
next
  case False
  then have ne: "aid \<noteq> ego" by simp
  show ?thesis
  proof (cases "list_ex (\<lambda>l. l \<in> set seq) (lanes_at m (position agent))")
    case False
    with ne show ?thesis by (simp add: equal_speed_neighbour_def interval_of_def Let_def)
  next
    case True
    show ?thesis
    proof (cases "isclose (speed st - speed agent) 0")
      case True
      with ne \<open>list_ex (\<lambda>l. l \<in> set seq) (lanes_at m (position agent))\<close> show ?thesis
        by (simp add: equal_speed_neighbour_def interval_of_def Let_def)
    next
      case False
      with ne \<open>list_ex (\<lambda>l. l \<in> set seq) (lanes_at m (position agent))\<close> show ?thesis
        by (simp add: equal_speed_neighbour_def interval_of_def Let_def)
    qed
  qed
qed

lemma oncoming_loop_error:
  "oncoming_loop c m tm seq ego st items ivs = Inl e \<Longrightarrow> e = RuntimeError"
proof (induction items arbitrary: ivs)
  case Nil
  then show ?case by simp
next
  case (Cons x items)
  obtain aid agent where x: "x = (aid, agent)" by (cases x)
  from Cons.prems show ?case
    unfolding x oncoming_loop_step by (auto split: if_splits dest: Cons.IH)
qed

lemma oncoming_loop_blocked:
  "(\<exists>e. oncoming_loop c m tm seq ego st items ivs = Inl e) \<longleftrightarrow>
   (\<exists>(aid, agent) \<in> set items. equal_speed_neighbour c m tm seq ego st aid agent)"
proof (induction items arbitrary: ivs)
  case Nil
  then show ?case by simp
next
  case (Cons x items)
  obtain aid agent where x: "x = (aid, agent)" by (cases x)
  show ?case
    unfolding x oncoming_loop_step
    using Cons.IH [of "ivs @ interval_of c m tm seq ego st aid agent"] by auto
qed

lemma intervals_blocked:
  assumes "map_of fr ego = Some st"
  shows "get_oncoming_vehicle_intervals c m tm seq ego fr = Inl RuntimeError \<longleftrightarrow>
     (\<exists>(aid, agent) \<in> set fr. equal_speed_neighbour c m tm seq ego st aid agent)"
proof -
  have "get_oncoming_vehicle_intervals c m tm seq ego fr = Inl RuntimeError \<longleftrightarrow>
     (\<exists>e. oncoming_loop c m tm seq ego st fr [] = Inl e)"
    using assms oncoming_loop_error [of c m tm seq ego st fr "[]"]
    by (auto simp: get_oncoming_vehicle_intervals_def split: sum.splits)
  then show ?thesis using oncoming_loop_blocked [of c m tm seq ego st fr "[]"] by simp
qed

lemma intervals_error:
  assumes "map_of fr ego = Some st"
    and "get_oncoming_vehicle_intervals c m tm seq ego fr = Inl e"
  shows "e = RuntimeError"
  using assms oncoming_loop_error [of c m tm seq ego st fr "[]"]
  by (auto simp: get_oncoming_vehicle_intervals_def split: sum.splits)

lemma first_change_fails:
  "first_change mn v ivs t_end d = Inl e \<longleftrightarrow>
   e = AssertionError \<and> (\<forall>k::nat. mn \<le> d - 5 * real k \<longrightarrow> too_late v ivs t_end (d - 5 * real k))"
proof (induction mn v ivs t_end d rule: first_change.induct)
  case (1 mn v ivs t_end d)
  show ?case
  proof (cases "mn \<le> d")
    case False
    then have "\<not> mn \<le> d - 5 * real k" for k
      by (smt (verit) mult_nonneg_nonneg of_nat_0_le_iff)
    with False show ?thesis by (subst first_change.simps) auto
  next
    case True
    show ?thesis
    proof (cases "too_late v ivs t_end d")
      case False
      have "\<not> (\<forall>k::nat. mn \<le> d - 5 * real k \<longrightarrow> too_late v ivs t_end (d - 5 * real k))"
        using True False by (auto intro: exI [of _ 0])
      moreover have "first_change mn v ivs t_end d = Inr (d, first_free v ivs d)"
        using True False by (subst first_change.simps) (simp add: too_late_def)
      ultimately show ?thesis by simp
    next
      case late: True
      have step: "first_change mn v ivs t_end d = first_change mn v ivs t_end (d - 5)"
        using True late by (subst first_change.simps) (simp add: too_late_def)
      have IH: "first_change mn v ivs t_end (d - 5) = Inl e \<longleftrightarrow>
        e = AssertionError \<and>
        (\<forall>k::nat. mn \<le> d - 5 - 5 * real k \<longrightarrow> too_late v ivs t_end (d - 5 - 5 * real k))"
        using 1 [OF True] late by (simp add: too_late_def)
      have shift: "d - 5 - 5 * real k = d - 5 * real (Suc k)" for k by simp
      have "(\<forall>k::nat. mn \<le> d - 5 * real k \<longrightarrow> too_late v ivs t_end (d - 5 * real k)) \<longleftrightarrow>
        (\<forall>k::nat. mn \<le> d - 5 * real (Suc k) \<longrightarrow> too_late v ivs t_end (d - 5 * real (Suc k)))"
      proof
        assume a: "\<forall>k::nat. mn \<le> d - 5 * real k \<longrightarrow> too_late v ivs t_end (d - 5 * real k)"
        show "\<forall>k::nat. mn \<le> d - 5 * real (Suc k) \<longrightarrow> too_late v ivs t_end (d - 5 * real (Suc k))"
          using a by blast
      next
        assume a: "\<forall>k::nat. mn \<le> d - 5 * real (Suc k) \<longrightarrow>
          too_late v ivs t_end (d - 5 * real (Suc k))"
        show "\<forall>k::nat. mn \<le> d - 5 * real k \<longrightarrow> too_late v ivs t_end (d - 5 * real k)"
        proof (intro allI impI)
          fix k :: nat assume k: "mn \<le> d - 5 * real k"
          show "too_late v ivs t_end (d - 5 * real k)"
          proof (cases k)
            case 0
            with late show ?thesis by simp
          next
            case (Suc j)
            with a k show ?thesis by blast
          qed
        qed
      qed
      with IH step show ?thesis by (simp only: shift)
    qed
  qed
qed


lemma first_change_succeeds:
  "first_change mn v ivs t_end d = Inr (d', t) \<Longrightarrow>
   \<exists>k::nat. d' = d - 5 * real k \<and> mn \<le> d' \<and> \<not> too_late v ivs t_end d' \<and>
     t = first_free v ivs d' \<and> (\<forall>j<k. too_late v ivs t_end (d - 5 * real j))"
proof (induction mn v ivs t_end d rule: first_change.induct)
  case (1 mn v ivs t_end d)
  show ?case
  proof (cases "mn \<le> d")
    case False
    with 1(2) show ?thesis by (subst (asm) first_change.simps) simp
  next
    case True
    show ?thesis
    proof (cases "too_late v ivs t_end d")
      case False
      with True 1(2) have "d' = d" "t = first_free v ivs d"
        by (subst (asm) first_change.simps, simp add: too_late_def)+
      with True False show ?thesis by (intro exI [of _ 0]) simp
    next
      case late: True
      with True 1(2) have "first_change mn v ivs t_end (d - 5) = Inr (d', t)"
        by (subst (asm) first_change.simps) (simp add: too_late_def)
      from 1(1) [OF True _ this] late obtain k :: nat where
        k: "d' = d - 5 - 5 * real k" "mn \<le> d'" "\<not> too_late v ivs t_end d'"
           "t = first_free v ivs d'" "\<forall>j<k. too_late v ivs t_end (d - 5 - 5 * real j)"
        by (auto simp: too_late_def)
      have "\<forall>j<Suc k. too_late v ivs t_end (d - 5 * real j)"
      proof (intro allI impI)
        fix j assume j: "j < Suc k"
        show "too_late v ivs t_end (d - 5 * real j)"
        proof (cases j)
          case 0
          with late show ?thesis by simp
        next
          case (Suc i)
          with j have "i < k" by simp
          with k(5) have "too_late v ivs t_end (d - 5 - 5 * real i)" by blast
          moreover have "d - 5 - 5 * real i = d - 5 * real (Suc i)" by simp
          ultimately show ?thesis using Suc by simp
        qed
      qed
      moreover have "d' = d - 5 * real (Suc k)" using k(1) by simp
      ultimately show ?thesis using k(2,3,4) by blast
    qed
  qed
qed


lemma gap_analysis_eq:
  assumes "map_of fr ego = Some st"
  shows "gap_analysis c m tm seq ego fr =
     (case get_oncoming_vehicle_intervals c m tm seq ego fr of
        Inl e \<Rightarrow> Inl e
      | Inr ivs \<Rightarrow>
          first_change (MIN_SWITCH_LENGTH c) (speed st) ivs
            ((line_length tm - project tm (position st)) / speed st) (TARGET_SWITCH_LENGTH c))"
  using assms by (simp add: gap_analysis_def)

lemma gap_map_fields:
  "best_lane_at gap_map (0, 0) h = Some 0" "best_lane_at gap_map (16, 0) h = Some 1"
  "distance_at gap_map 0 (0, 0) = 0" "distance_at gap_map 1 (16, 0) = 6"
  by (simp_all add: gap_map_def straight_map_def)

lemma seq_alone: "get_lane_sequence gap_map False (car 16 0 2) 1 20 = Some [11]"
  by (simp add: get_lane_sequence_def lane_sequence_loop.simps next_lane_def get_target_lane_def
      gap_map_def straight_map_def car_fields)

lemma seq_origin: "get_lane_sequence gap_map False (car 0 0 2) 0 20 = Some [10, 11]"
  by (simp add: get_lane_sequence_def lane_sequence_loop.simps next_lane_def get_target_lane_def
      gap_map_def straight_map_def car_fields)


lemma lengths_fields:
  "MIN_SWITCH_LENGTH lengths_5_20 = 5" "TARGET_SWITCH_LENGTH lengths_5_20 = 20"
  by (simp_all add: lengths_5_20_def)

lemma x_axis_fields:
  "line_length (x_axis_line (p # ps)) = fst (last (p # ps)) - fst p"
  "project (x_axis_line (p # ps)) (x, y) = max 0 (min (fst (last (p # ps)) - fst p) (x - fst p))"
  by (simp_all add: x_axis_line_def)

lemma lanes_at_gap: "lanes_at gap_map (x, y) = (if y = 5 then (if x < 10 then [10] else [11]) else [])"
  by (simp add: gap_map_def)

lemma midline_alone:
  "get_lane_sequence_midline gap_map x_axis_library [11] = Inr (x_axis_line [(10, 5), (20, 5)])"
  by (simp add: get_lane_sequence_midline_def gap_map_def x_axis_library_def)

lemma midline_origin:
  "get_lane_sequence_midline gap_map x_axis_library [10, 11] =
     Inr (x_axis_line [(0, 5), (10, 5), (20, 5)])"
  by (simp add: get_lane_sequence_midline_def gap_map_def x_axis_library_def)

lemma ego_alone: "map_of alone 0 = Some (car 16 0 2)"
  by (simp add: alone_def)

lemma ego_beside: "map_of beside 0 = Some (car 0 0 2)"
  by (simp add: beside_def)

lemma ego_slower: "map_of slower 0 = Some (car 0 0 2)"
  by (simp add: slower_def)

lemma gap_alone:
  "gap_analysis lengths_5_20 gap_map (x_axis_line [(10, 5), (20, 5)]) [11] 0 alone =
     Inl AssertionError"
  unfolding gap_analysis_eq [OF ego_alone]
  by (simp add: get_oncoming_vehicle_intervals_def alone_def lengths_fields x_axis_fields
      car_fields first_change.simps first_free_def)

lemma neighbour_beside:
  "equal_speed_neighbour lengths_5_20 gap_map (x_axis_line [(0, 5), (10, 5), (20, 5)]) [10, 11] 0
     (car 0 0 2) 1 (car 3 5 2)"
  by (simp add: equal_speed_neighbour_def lanes_at_gap lengths_fields x_axis_fields car_fields
      isclose_def)

lemma gap_beside:
  "gap_analysis lengths_5_20 gap_map (x_axis_line [(0, 5), (10, 5), (20, 5)]) [10, 11] 0 beside =
     Inl RuntimeError"
  unfolding gap_analysis_eq [OF ego_beside]
  by (simp add: get_oncoming_vehicle_intervals_def beside_def lanes_at_gap lengths_fields
      x_axis_fields car_fields isclose_def)

lemma intervals_slower:
  "get_oncoming_vehicle_intervals lengths_5_20 gap_map (x_axis_line [(0, 5), (10, 5), (20, 5)])
     [10, 11] 0 slower = Inr [(5, 15, 10)]"
  by (simp add: get_oncoming_vehicle_intervals_def slower_def lanes_at_gap lengths_fields
      x_axis_fields car_fields isclose_def)

lemma gap_slower:
  "gap_analysis lengths_5_20 gap_map (x_axis_line [(0, 5), (10, 5), (20, 5)]) [10, 11] 0 slower =
     Inr (10, 0)"
  unfolding gap_analysis_eq [OF ego_slower]
  by (simp add: intervals_slower lengths_fields x_axis_fields car_fields first_change.simps
      first_free_def)

lemma ChangeLane_init_checked:
  assumes "map_of fr ego = Some st"
    and "best_lane_at m (position st) (heading st) = Some cl"
    and "get_lane_sequence m left st cl (TARGET_SWITCH_LENGTH c) = Some seq"
    and "get_lane_sequence_midline m lib seq = Inr tm"
  shows "ChangeLane_init True c m lib left ego fr True =
     Some (MacroAction_init
       (\<lambda>aid f opl. case gap_analysis c m tm seq ego fr of
                       Inl e \<Rightarrow> Inl e
                     | Inr (d, t) \<Rightarrow> change_maneuvers m lib tm left ego fr st cl d t)
       ego fr True)"
  using assms by (simp add: ChangeLane_init_def ChangeLane_get_maneuvers_def)

lemma ChangeLane_init_unchecked:
  assumes "map_of fr ego = Some st"
    and "best_lane_at m (position st) (heading st) = Some cl"
    and "get_lane_sequence m left st cl (TARGET_SWITCH_LENGTH c) = Some seq"
    and "get_lane_sequence_midline m lib seq = Inr tm"
  shows "ChangeLane_init False c m lib left ego fr True =
     Some (MacroAction_init
       (\<lambda>aid f opl. switch_maneuvers lib tm left ego fr (position st) (TARGET_SWITCH_LENGTH c) [])
       ego fr True)"
  using assms by (simp add: ChangeLane_init_def ChangeLane_get_maneuvers_def)

lemma ChangeLane_init_gap_error:
  assumes "map_of fr ego = Some st"
    and "best_lane_at m (position st) (heading st) = Some cl"
    and "get_lane_sequence m left st cl (TARGET_SWITCH_LENGTH c) = Some seq"
    and "get_lane_sequence_midline m lib seq = Inr tm"
    and "gap_analysis c m tm seq ego fr = Inl e"
  shows "ChangeLane_init True c m lib left ego fr True = Some (Inl e)"
  unfolding ChangeLane_init_checked [OF assms(1-4)] using assms(5)
  by (simp add: MacroAction_init_def)

lemma lane_alone:
  "best_lane_at gap_map (position (car 16 0 2)) (heading (car 16 0 2)) = Some 1"
  by (simp add: car_fields gap_map_fields)

lemma lane_origin:
  "best_lane_at gap_map (position (car 0 0 2)) (heading (car 0 0 2)) = Some 0"
  by (simp add: car_fields gap_map_fields)

lemma seq_alone_target:
  "get_lane_sequence gap_map False (car 16 0 2) 1 (TARGET_SWITCH_LENGTH lengths_5_20) = Some [11]"
  using seq_alone by (simp add: lengths_fields)

lemma seq_origin_target:
  "get_lane_sequence gap_map False (car 0 0 2) 0 (TARGET_SWITCH_LENGTH lengths_5_20) =
     Some [10, 11]"
  using seq_origin by (simp add: lengths_fields)

lemma init_alone:
  "ChangeLane_init True lengths_5_20 gap_map x_axis_library False 0 alone True =
     Some (Inl AssertionError)"
  by (rule ChangeLane_init_gap_error [OF ego_alone lane_alone seq_alone_target midline_alone gap_alone])

lemma init_beside:
  "ChangeLane_init True lengths_5_20 gap_map x_axis_library False 0 beside True =
     Some (Inl RuntimeError)"
  by (rule ChangeLane_init_gap_error [OF ego_beside lane_origin seq_origin_target midline_origin gap_beside])


lemma gap_analysis_first_fit:
  assumes st: "map_of fr ego = Some st"
    and g: "gap_analysis c m tm seq ego fr = Inr (d, t)"
  shows "\<exists>ivs k. get_oncoming_vehicle_intervals c m tm seq ego fr = Inr ivs \<and>
     d = TARGET_SWITCH_LENGTH c - 5 * real k \<and> MIN_SWITCH_LENGTH c \<le> d \<and>
     \<not> too_late (speed st) ivs ((line_length tm - project tm (position st)) / speed st) d \<and>
     t = first_free (speed st) ivs d \<and>
     (\<forall>j<k. too_late (speed st) ivs ((line_length tm - project tm (position st)) / speed st)
               (TARGET_SWITCH_LENGTH c - 5 * real j))"
proof -
  from g obtain ivs where
    i: "get_oncoming_vehicle_intervals c m tm seq ego fr = Inr ivs" and
    f: "first_change (MIN_SWITCH_LENGTH c) (speed st) ivs
       ((line_length tm - project tm (position st)) / speed st) (TARGET_SWITCH_LENGTH c) = Inr (d, t)"
    unfolding gap_analysis_eq [OF st] by (auto split: sum.splits)
  from first_change_succeeds [OF f] i show ?thesis by blast
qed

lemma gap_analysis_errors:
  assumes st: "map_of fr ego = Some st"
    and g: "gap_analysis c m tm seq ego fr = Inl e"
  shows "e = RuntimeError \<or> e = AssertionError"
  using g intervals_error [OF st, of c m tm seq]
    first_change_fails [of "MIN_SWITCH_LENGTH c" "speed st" _ _ "TARGET_SWITCH_LENGTH c" e]
  unfolding gap_analysis_eq [OF st] by (auto split: sum.splits)

lemma gap_analysis_blocked:
  assumes st: "map_of fr ego = Some st"
  shows "gap_analysis c m tm seq ego fr = Inl RuntimeError \<longleftrightarrow>
      (\<exists>(aid, agent) \<in> set fr. equal_speed_neighbour c m tm seq ego st aid agent)"
  using intervals_blocked [OF st, of c m tm seq] intervals_error [OF st, of c m tm seq]
    first_change_fails [of "MIN_SWITCH_LENGTH c" "speed st" _ _ "TARGET_SWITCH_LENGTH c" RuntimeError]
  unfolding gap_analysis_eq [OF st] by (auto split: sum.splits)

lemma gap_analysis_lane_ends:
  assumes st: "map_of fr ego = Some st"
    and i: "get_oncoming_vehicle_intervals c m tm seq ego fr = Inr ivs"
  shows "gap_analysis c m tm seq ego fr = Inl AssertionError \<longleftrightarrow>
           (\<forall>k::nat. MIN_SWITCH_LENGTH c \<le> TARGET_SWITCH_LENGTH c - 5 * real k \<longrightarrow>
              too_late (speed st) ivs ((line_length tm - project tm (position st)) / speed st)
                (TARGET_SWITCH_LENGTH c - 5 * real k))"
  using i unfolding gap_analysis_eq [OF st] by (simp add: first_change_fails)

text \<open>
  C3 (as amended). The construction of a \<^verbatim>\<open>ChangeLane\<close> raises \<^verbatim>\<open>KeyError\<close> for a frame
  without the agent and \<^verbatim>\<open>AttributeError\<close> for an agent on no lane; it does not return when
  the walk along the lanes to change to does not end, and raises \<^verbatim>\<open>IndexError\<close> when there
  is no lane to change to. Otherwise, for an ego that moves and open loop control: the gap
  analysis, which is run when \<^verbatim>\<open>CHECK_ONCOMING\<close> is set, fails with \<^verbatim>\<open>RuntimeError\<close> exactly
  when another agent on the target lanes has a speed close to the ego's and is within the
  minimum switch length of it along the target midline; once the intervals of the other
  vehicles are found, it fails with \<^verbatim>\<open>AssertionError\<close> exactly when every switch length
  among the target length, 5 less, 10 less and so on that is not below the minimum would
  end no sooner than the lane; it fails in no other way, and its failure is that of the
  construction. When it succeeds it gives the first of these lengths that fits, every longer
  one being too late, with the start time found for it, and the construction is that of the
  base class on the maneuvers built from the two. When the flag is not set, no analysis is
  run and the switch has the target length.
\<close>

theorem change_lane_construction:
  "(map_of fr ego = None \<longrightarrow>
      ChangeLane_init chk c m lib left ego fr ol = Some (Inl KeyError)) \<and>
   (map_of fr ego = Some st \<and> best_lane_at m (position st) (heading st) = None \<longrightarrow>
      ChangeLane_init chk c m lib left ego fr ol = Some (Inl AttributeError)) \<and>
   (map_of fr ego = Some st \<and> best_lane_at m (position st) (heading st) = Some cl \<and>
    get_lane_sequence m left st cl (TARGET_SWITCH_LENGTH c) = None \<longrightarrow>
      ChangeLane_init chk c m lib left ego fr ol = None) \<and>
   (map_of fr ego = Some st \<and> best_lane_at m (position st) (heading st) = Some cl \<and>
    get_lane_sequence m left st cl (TARGET_SWITCH_LENGTH c) = Some [] \<longrightarrow>
      ChangeLane_init chk c m lib left ego fr ol = Some (Inl IndexError)) \<and>
   (map_of fr ego = Some st \<and> 0 < speed st \<and>
    best_lane_at m (position st) (heading st) = Some cl \<and>
    get_lane_sequence m left st cl (TARGET_SWITCH_LENGTH c) = Some seq \<and>
    get_lane_sequence_midline m lib seq = Inr tm \<longrightarrow>
      (gap_analysis c m tm seq ego fr = Inl RuntimeError \<longleftrightarrow>
         (\<exists>(aid, agent) \<in> set fr. equal_speed_neighbour c m tm seq ego st aid agent)) \<and>
      (get_oncoming_vehicle_intervals c m tm seq ego fr = Inr ivs \<longrightarrow>
         (gap_analysis c m tm seq ego fr = Inl AssertionError \<longleftrightarrow>
            (\<forall>k::nat. MIN_SWITCH_LENGTH c \<le> TARGET_SWITCH_LENGTH c - 5 * real k \<longrightarrow>
               too_late (speed st) ivs ((line_length tm - project tm (position st)) / speed st)
                 (TARGET_SWITCH_LENGTH c - 5 * real k)))) \<and>
      (gap_analysis c m tm seq ego fr = Inl e \<longrightarrow>
         (e = RuntimeError \<or> e = AssertionError) \<and>
         ChangeLane_init True c m lib left ego fr True = Some (Inl e)) \<and>
      (gap_analysis c m tm seq ego fr = Inr (d, t) \<longrightarrow>
         (\<exists>found k. get_oncoming_vehicle_intervals c m tm seq ego fr = Inr found \<and>
            d = TARGET_SWITCH_LENGTH c - 5 * real k \<and> MIN_SWITCH_LENGTH c \<le> d \<and>
            \<not> too_late (speed st) found
                ((line_length tm - project tm (position st)) / speed st) d \<and>
            t = first_free (speed st) found d \<and>
            (\<forall>j<k. too_late (speed st) found
                      ((line_length tm - project tm (position st)) / speed st)
                      (TARGET_SWITCH_LENGTH c - 5 * real j))) \<and>
         ChangeLane_init True c m lib left ego fr True =
           Some (MacroAction_init
                  (\<lambda>aid f opl. change_maneuvers m lib tm left ego fr st cl d t) ego fr True)) \<and>
      ChangeLane_init False c m lib left ego fr True =
        Some (MacroAction_init
               (\<lambda>aid f opl. switch_maneuvers lib tm left ego fr (position st)
                                (TARGET_SWITCH_LENGTH c) [])
               ego fr True))"
proof (intro conjI impI)
  assume "map_of fr ego = None"
  then show "ChangeLane_init chk c m lib left ego fr ol = Some (Inl KeyError)"
    by (simp add: ChangeLane_init_def ChangeLane_get_maneuvers_def MacroAction_init_def)
next
  assume "map_of fr ego = Some st \<and> best_lane_at m (position st) (heading st) = None"
  then show "ChangeLane_init chk c m lib left ego fr ol = Some (Inl AttributeError)"
    by (simp add: ChangeLane_init_def ChangeLane_get_maneuvers_def MacroAction_init_def)
next
  assume "map_of fr ego = Some st \<and> best_lane_at m (position st) (heading st) = Some cl \<and>
    get_lane_sequence m left st cl (TARGET_SWITCH_LENGTH c) = None"
  then show "ChangeLane_init chk c m lib left ego fr ol = None"
    by (simp add: ChangeLane_init_def ChangeLane_get_maneuvers_def)
next
  assume "map_of fr ego = Some st \<and> best_lane_at m (position st) (heading st) = Some cl \<and>
    get_lane_sequence m left st cl (TARGET_SWITCH_LENGTH c) = Some []"
  then show "ChangeLane_init chk c m lib left ego fr ol = Some (Inl IndexError)"
    by (simp add: ChangeLane_init_def ChangeLane_get_maneuvers_def MacroAction_init_def
        get_lane_sequence_midline_def)
next
  assume h: "map_of fr ego = Some st \<and> 0 < speed st \<and>
    best_lane_at m (position st) (heading st) = Some cl \<and>
    get_lane_sequence m left st cl (TARGET_SWITCH_LENGTH c) = Some seq \<and>
    get_lane_sequence_midline m lib seq = Inr tm"
  then have st: "map_of fr ego = Some st"
    and cl: "best_lane_at m (position st) (heading st) = Some cl"
    and seq: "get_lane_sequence m left st cl (TARGET_SWITCH_LENGTH c) = Some seq"
    and tm: "get_lane_sequence_midline m lib seq = Inr tm"
    by simp_all
  show "gap_analysis c m tm seq ego fr = Inl RuntimeError \<longleftrightarrow>
         (\<exists>(aid, agent) \<in> set fr. equal_speed_neighbour c m tm seq ego st aid agent)"
    by (rule gap_analysis_blocked [OF st])
  show "ChangeLane_init False c m lib left ego fr True =
        Some (MacroAction_init
               (\<lambda>aid f opl. switch_maneuvers lib tm left ego fr (position st)
                                (TARGET_SWITCH_LENGTH c) [])
               ego fr True)"
    by (rule ChangeLane_init_unchecked [OF st cl seq tm])
  {
    assume "get_oncoming_vehicle_intervals c m tm seq ego fr = Inr ivs"
    then show "gap_analysis c m tm seq ego fr = Inl AssertionError \<longleftrightarrow>
            (\<forall>k::nat. MIN_SWITCH_LENGTH c \<le> TARGET_SWITCH_LENGTH c - 5 * real k \<longrightarrow>
               too_late (speed st) ivs ((line_length tm - project tm (position st)) / speed st)
                 (TARGET_SWITCH_LENGTH c - 5 * real k))"
      by (rule gap_analysis_lane_ends [OF st])
  }
  {
    assume e: "gap_analysis c m tm seq ego fr = Inl e"
    show "e = RuntimeError \<or> e = AssertionError"
      by (rule gap_analysis_errors [OF st e])
    show "ChangeLane_init True c m lib left ego fr True = Some (Inl e)"
      by (rule ChangeLane_init_gap_error [OF st cl seq tm e])
  }
  {
    assume g: "gap_analysis c m tm seq ego fr = Inr (d, t)"
    show "\<exists>found k. get_oncoming_vehicle_intervals c m tm seq ego fr = Inr found \<and>
            d = TARGET_SWITCH_LENGTH c - 5 * real k \<and> MIN_SWITCH_LENGTH c \<le> d \<and>
            \<not> too_late (speed st) found
                ((line_length tm - project tm (position st)) / speed st) d \<and>
            t = first_free (speed st) found d \<and>
            (\<forall>j<k. too_late (speed st) found
                      ((line_length tm - project tm (position st)) / speed st)
                      (TARGET_SWITCH_LENGTH c - 5 * real j))"
      by (rule gap_analysis_first_fit [OF st g])
    show "ChangeLane_init True c m lib left ego fr True =
           Some (MacroAction_init
                  (\<lambda>aid f opl. change_maneuvers m lib tm left ego fr st cl d t) ego fr True)"
      unfolding ChangeLane_init_checked [OF st cl seq tm] using g by simp
  }
qed


lemma stuck_sequence_never_returns:
  assumes "lane_sequence_loop m left threshold ls cur so_far = Some y"
  shows "\<not> (\<exists>l t. cur = Some l \<and> next_lane m l = Some l \<and> lane_length m l = 0 \<and>
            get_target_lane m left l = Some t \<and> lane_id m t \<noteq> 0 \<and> so_far \<le> threshold)"
proof (rule lane_sequence_loop.raw_induct
    [where P = "\<lambda>m left threshold ls cur so_far y.
       \<not> (\<exists>l t. cur = Some l \<and> next_lane m l = Some l \<and> lane_length m l = 0 \<and>
            get_target_lane m left l = Some t \<and> lane_id m t \<noteq> 0 \<and> so_far \<le> threshold)",
     OF _ assms])
  fix f :: "scenario_map \<Rightarrow> bool \<Rightarrow> real \<Rightarrow> lane list \<Rightarrow> lane option \<Rightarrow> real \<Rightarrow> lane list option"
  fix m left threshold ls cur so_far y
  assume IH: "\<And>m left threshold ls cur so_far y. f m left threshold ls cur so_far = Some y \<Longrightarrow>
      \<not> (\<exists>l t. cur = Some l \<and> next_lane m l = Some l \<and> lane_length m l = 0 \<and>
            get_target_lane m left l = Some t \<and> lane_id m t \<noteq> 0 \<and> so_far \<le> threshold)"
  assume step: "(case cur of
        None \<Rightarrow> Some ls
      | Some cl \<Rightarrow>
          if so_far \<le> threshold then
            (case get_target_lane m left cl of
               None \<Rightarrow> Some ls
             | Some target_lane \<Rightarrow>
                 if lane_id m target_lane = 0 then Some ls
                 else f m left threshold (ls @ [target_lane]) (next_lane m cl)
                        (so_far + lane_length m cl))
          else Some ls) = Some y"
  show "\<not> (\<exists>l t. cur = Some l \<and> next_lane m l = Some l \<and> lane_length m l = 0 \<and>
            get_target_lane m left l = Some t \<and> lane_id m t \<noteq> 0 \<and> so_far \<le> threshold)"
  proof
    assume "\<exists>l t. cur = Some l \<and> next_lane m l = Some l \<and> lane_length m l = 0 \<and>
            get_target_lane m left l = Some t \<and> lane_id m t \<noteq> 0 \<and> so_far \<le> threshold"
    then obtain l t where a: "cur = Some l" "next_lane m l = Some l" "lane_length m l = 0"
      "get_target_lane m left l = Some t" "lane_id m t \<noteq> 0" "so_far \<le> threshold"
      by blast
    with step have "f m left threshold (ls @ [t]) (Some l) so_far = Some y" by simp
    from IH [OF this] a show False by blast
  qed
qed

lemma flat_gap_fields:
  "best_lane_at flat_gap_map (0, 0) h = Some 0"
  "next_lane flat_gap_map 0 = Some 0" "lane_length flat_gap_map 0 = 0"
  "get_target_lane flat_gap_map False 0 = Some 10" "lane_id flat_gap_map 10 = - 2"
  "distance_at flat_gap_map 0 (0, 0) = 0"
  by (simp_all add: flat_gap_map_def gap_map_def straight_map_def next_lane_def
      get_target_lane_def)

lemma seq_flat:
  "get_lane_sequence flat_gap_map False (car 0 0 2) 0 (TARGET_SWITCH_LENGTH lengths_5_20) = None"
proof (cases "get_lane_sequence flat_gap_map False (car 0 0 2) 0
    (TARGET_SWITCH_LENGTH lengths_5_20)")
  case None
  then show ?thesis .
next
  case (Some y)
  then have "lane_sequence_loop flat_gap_map False 20 [] (Some 0) 0 = Some y"
    by (simp add: get_lane_sequence_def lengths_fields car_fields flat_gap_fields)
  from stuck_sequence_never_returns [OF this] show ?thesis
    by (simp add: flat_gap_fields)
qed

lemma lane_flat:
  "best_lane_at flat_gap_map (position (car 0 0 2)) (heading (car 0 0 2)) = Some 0"
  by (simp add: car_fields flat_gap_fields)

lemma seq_left:
  "get_lane_sequence gap_map True (car 16 0 2) 1 (TARGET_SWITCH_LENGTH lengths_5_20) = Some []"
  by (simp add: get_lane_sequence_def lane_sequence_loop.simps get_target_lane_def
      gap_map_def straight_map_def car_fields lengths_fields)

lemma lane_off_road:
  "map_of off_road 0 = Some (car 50 50 2)"
  "best_lane_at gap_map (position (car 50 50 2)) (heading (car 50 50 2)) = None"
  by (simp_all add: off_road_def car_fields gap_map_def straight_map_def)

lemma intervals_alone:
  "get_oncoming_vehicle_intervals lengths_5_20 gap_map (x_axis_line [(10, 5), (20, 5)]) [11] 0
     alone = Inr []"
  by (simp add: get_oncoming_vehicle_intervals_def alone_def)

lemma switch_slower:
  "change_maneuvers gap_map x_axis_library (x_axis_line [(0, 5), (10, 5), (20, 5)]) False 0 slower
     (car 0 0 2) 0 10 0 = Inr ([\<lparr>path = [(10, 5)], velocity = [2]\<rparr>], Some slower)"
  by (simp add: change_maneuvers_def switch_maneuvers_def x_axis_library_def x_axis_line_def
      car_fields)

lemma switch_beside:
  "switch_maneuvers x_axis_library (x_axis_line [(0, 5), (10, 5), (20, 5)]) False 0 beside
     (position (car 0 0 2)) (TARGET_SWITCH_LENGTH lengths_5_20) [] =
   Inr ([\<lparr>path = [(20, 5)], velocity = [2]\<rparr>], Some beside)"
  by (simp add: switch_maneuvers_def x_axis_library_def x_axis_line_def car_fields
      lengths_fields)

lemma init_beside_unchecked:
  "ChangeLane_init False lengths_5_20 gap_map x_axis_library False 0 beside True =
     Some (Inr \<lparr>open_loop = True, agent_id = 0, start_frame = beside, final_frame = Some beside,
                maneuvers = Some [\<lparr>path = [(20, 5)], velocity = [2]\<rparr>],
                current_maneuver = NoneRef\<rparr>)"
  unfolding ChangeLane_init_unchecked [OF ego_beside lane_origin seq_origin_target midline_origin]
  by (simp add: switch_beside MacroAction_init_def)

theorem change_lane_construction_witness:
  "ChangeLane_init True lengths_5_20 gap_map x_axis_library False 5 alone True =
     Some (Inl KeyError) \<and>
   ChangeLane_init True lengths_5_20 gap_map x_axis_library False 0 off_road True =
     Some (Inl AttributeError) \<and>
   ChangeLane_init True lengths_5_20 flat_gap_map x_axis_library False 0 slower True = None \<and>
   ChangeLane_init True lengths_5_20 gap_map x_axis_library True 0 alone True =
     Some (Inl IndexError) \<and>
   equal_speed_neighbour lengths_5_20 gap_map (x_axis_line [(0, 5), (10, 5), (20, 5)]) [10, 11] 0
     (car 0 0 2) 1 (car 3 5 2) \<and>
   gap_analysis lengths_5_20 gap_map (x_axis_line [(0, 5), (10, 5), (20, 5)]) [10, 11] 0 beside =
     Inl RuntimeError \<and>
   ChangeLane_init True lengths_5_20 gap_map x_axis_library False 0 beside True =
     Some (Inl RuntimeError) \<and>
   too_late 2 [] 2 20 \<and> too_late 2 [] 2 15 \<and> too_late 2 [] 2 10 \<and> too_late 2 [] 2 5 \<and>
   ChangeLane_init True lengths_5_20 gap_map x_axis_library False 0 alone True =
     Some (Inl AssertionError) \<and>
   gap_analysis lengths_5_20 gap_map (x_axis_line [(0, 5), (10, 5), (20, 5)]) [10, 11] 0 slower =
     Inr (10, 0) \<and>
   too_late 2 [(5, 15, 10)] 10 20 \<and> too_late 2 [(5, 15, 10)] 10 15 \<and>
   \<not> too_late 2 [(5, 15, 10)] 10 10 \<and> first_free 2 [(5, 15, 10)] 10 = 0 \<and>
   ChangeLane_init True lengths_5_20 gap_map x_axis_library False 0 slower True =
     Some (Inr \<lparr>open_loop = True, agent_id = 0, start_frame = slower, final_frame = Some slower,
                maneuvers = Some [\<lparr>path = [(10, 5)], velocity = [2]\<rparr>],
                current_maneuver = NoneRef\<rparr>) \<and>
   ChangeLane_init False lengths_5_20 gap_map x_axis_library False 0 beside True =
     Some (Inr \<lparr>open_loop = True, agent_id = 0, start_frame = beside, final_frame = Some beside,
                maneuvers = Some [\<lparr>path = [(20, 5)], velocity = [2]\<rparr>],
                current_maneuver = NoneRef\<rparr>)"
proof -
  let ?c = lengths_5_20 and ?lib = x_axis_library
  let ?far = "x_axis_line [(10, 5), (20, 5)]" and ?near = "x_axis_line [(0, 5), (10, 5), (20, 5)]"
  have v: "speed (car 16 0 2) = 2" "speed (car 0 0 2) = 2" "0 < speed (car 16 0 2)"
    "0 < speed (car 0 0 2)" "position (car 16 0 2) = (16, 0)" "position (car 0 0 2) = (0, 0)"
    by (simp_all add: car_fields)
  have none: "map_of alone 5 = None" by (simp add: alone_def)
  from change_lane_construction [where fr = alone and ego = 5 and chk = True and c = ?c
      and m = gap_map and lib = ?lib and left = False and ol = True] none
  have k: "ChangeLane_init True ?c gap_map ?lib False 5 alone True = Some (Inl KeyError)"
    by blast
  from change_lane_construction [where fr = off_road and ego = 0 and chk = True and c = ?c
      and m = gap_map and lib = ?lib and left = False and ol = True and st = "car 50 50 2"]
    lane_off_road
  have a: "ChangeLane_init True ?c gap_map ?lib False 0 off_road True =
      Some (Inl AttributeError)"
    by blast
  from change_lane_construction [where fr = slower and ego = 0 and chk = True and c = ?c
      and m = flat_gap_map and lib = ?lib and left = False and ol = True and st = "car 0 0 2"
      and cl = 0] ego_slower lane_flat seq_flat
  have n: "ChangeLane_init True ?c flat_gap_map ?lib False 0 slower True = None"
    by blast
  from change_lane_construction [where fr = alone and ego = 0 and chk = True and c = ?c
      and m = gap_map and lib = ?lib and left = True and ol = True and st = "car 16 0 2"
      and cl = 1] ego_alone lane_alone seq_left
  have i: "ChangeLane_init True ?c gap_map ?lib True 0 alone True = Some (Inl IndexError)"
    by blast
  note B = change_lane_construction [where fr = beside and ego = 0 and c = ?c
      and m = gap_map and lib = ?lib and left = False and st = "car 0 0 2"
      and cl = 0 and seq = "[10, 11]" and tm = ?near and e = RuntimeError]
  have hb: "map_of beside 0 = Some (car 0 0 2) \<and> 0 < speed (car 0 0 2) \<and>
      best_lane_at gap_map (position (car 0 0 2)) (heading (car 0 0 2)) = Some 0 \<and>
      get_lane_sequence gap_map False (car 0 0 2) 0 (TARGET_SWITCH_LENGTH ?c) = Some [10, 11] \<and>
      get_lane_sequence_midline gap_map ?lib [10, 11] = Inr ?near"
    using ego_beside v(4) lane_origin seq_origin_target midline_origin by blast
  have nb: "\<exists>(aid, agent) \<in> set beside.
      equal_speed_neighbour ?c gap_map ?near [10, 11] 0 (car 0 0 2) aid agent"
    using neighbour_beside by (simp add: beside_def)
  from B hb nb have gb: "gap_analysis ?c gap_map ?near [10, 11] 0 beside = Inl RuntimeError"
    by blast
  from B hb gb have rb: "ChangeLane_init True ?c gap_map ?lib False 0 beside True =
      Some (Inl RuntimeError)"
    by blast
  from B hb have ub: "ChangeLane_init False ?c gap_map ?lib False 0 beside True =
      Some (MacroAction_init
             (\<lambda>aid f opl. switch_maneuvers ?lib ?near False 0 beside (position (car 0 0 2))
                              (TARGET_SWITCH_LENGTH ?c) [])
             0 beside True)"
    by blast
  have ub': "ChangeLane_init False ?c gap_map ?lib False 0 beside True =
     Some (Inr \<lparr>open_loop = True, agent_id = 0, start_frame = beside, final_frame = Some beside,
                maneuvers = Some [\<lparr>path = [(20, 5)], velocity = [2]\<rparr>],
                current_maneuver = NoneRef\<rparr>)"
    unfolding ub by (simp add: switch_beside MacroAction_init_def)
  note L = change_lane_construction [where fr = alone and ego = 0 and c = ?c
      and m = gap_map and lib = ?lib and left = False and st = "car 16 0 2"
      and cl = 1 and seq = "[11]" and tm = ?far and e = AssertionError and ivs = "[]"]
  have hl: "map_of alone 0 = Some (car 16 0 2) \<and> 0 < speed (car 16 0 2) \<and>
      best_lane_at gap_map (position (car 16 0 2)) (heading (car 16 0 2)) = Some 1 \<and>
      get_lane_sequence gap_map False (car 16 0 2) 1 (TARGET_SWITCH_LENGTH ?c) = Some [11] \<and>
      get_lane_sequence_midline gap_map ?lib [11] = Inr ?far"
    using ego_alone v(3) lane_alone seq_alone_target midline_alone by blast
  from L hl intervals_alone gap_alone
  have all_late: "\<forall>k::nat. MIN_SWITCH_LENGTH ?c \<le> TARGET_SWITCH_LENGTH ?c - 5 * real k \<longrightarrow>
      too_late (speed (car 16 0 2)) []
        ((line_length ?far - project ?far (position (car 16 0 2))) / speed (car 16 0 2))
        (TARGET_SWITCH_LENGTH ?c - 5 * real k)"
    by blast
  have t_end: "(line_length ?far - project ?far (position (car 16 0 2))) / speed (car 16 0 2) = 2"
    by (simp add: v x_axis_fields)
  from all_late have late: "5 \<le> 20 - 5 * real k \<Longrightarrow> too_late 2 [] 2 (20 - 5 * real k)" for k
    unfolding t_end by (simp add: lengths_fields v)
  from late [of 0] late [of 1] late [of 2] late [of 3]
  have la: "too_late 2 [] 2 20 \<and> too_late 2 [] 2 15 \<and> too_late 2 [] 2 10 \<and> too_late 2 [] 2 5"
    by simp
  from L hl gap_alone have rl: "ChangeLane_init True ?c gap_map ?lib False 0 alone True =
      Some (Inl AssertionError)"
    by blast
  note S = change_lane_construction [where fr = slower and ego = 0 and c = ?c
      and m = gap_map and lib = ?lib and left = False and st = "car 0 0 2"
      and cl = 0 and seq = "[10, 11]" and tm = ?near and d = 10 and t = 0]
  have hs: "map_of slower 0 = Some (car 0 0 2) \<and> 0 < speed (car 0 0 2) \<and>
      best_lane_at gap_map (position (car 0 0 2)) (heading (car 0 0 2)) = Some 0 \<and>
      get_lane_sequence gap_map False (car 0 0 2) 0 (TARGET_SWITCH_LENGTH ?c) = Some [10, 11] \<and>
      get_lane_sequence_midline gap_map ?lib [10, 11] = Inr ?near"
    using ego_slower v(4) lane_origin seq_origin_target midline_origin by blast
  have t_end': "(line_length ?near - project ?near (position (car 0 0 2))) / speed (car 0 0 2) = 10"
    by (simp add: v x_axis_fields)
  from S hs gap_slower obtain found k where
    f: "get_oncoming_vehicle_intervals ?c gap_map ?near [10, 11] 0 slower = Inr found" and
    dk: "(10::real) = TARGET_SWITCH_LENGTH ?c - 5 * real k" and
    fit: "\<not> too_late (speed (car 0 0 2)) found
            ((line_length ?near - project ?near (position (car 0 0 2))) / speed (car 0 0 2)) 10" and
    t0: "(0::real) = first_free (speed (car 0 0 2)) found 10" and
    longer: "\<forall>j<k. too_late (speed (car 0 0 2)) found
            ((line_length ?near - project ?near (position (car 0 0 2))) / speed (car 0 0 2))
            (TARGET_SWITCH_LENGTH ?c - 5 * real j)"
    by blast
  from f intervals_slower have found: "found = [(5, 15, 10)]" by simp
  from dk have k2: "k = 2" by (simp add: lengths_fields)
  from longer have lo: "j < 2 \<Longrightarrow> too_late 2 [(5, 15, 10)] 10 (20 - 5 * real j)" for j
    unfolding t_end' found k2 by (simp add: lengths_fields v)
  from lo [of 0] lo [of 1] fit t0
  have ls: "too_late 2 [(5, 15, 10)] 10 20 \<and> too_late 2 [(5, 15, 10)] 10 15 \<and>
      \<not> too_late 2 [(5, 15, 10)] 10 10 \<and> first_free 2 [(5, 15, 10)] 10 = 0"
    unfolding t_end' found by (simp add: v)
  from S hs gap_slower have "ChangeLane_init True ?c gap_map ?lib False 0 slower True =
      Some (MacroAction_init
             (\<lambda>aid f opl. change_maneuvers gap_map ?lib ?near False 0 slower (car 0 0 2) 0 10 0)
             0 slower True)"
    by blast
  then have rs: "ChangeLane_init True ?c gap_map ?lib False 0 slower True =
     Some (Inr \<lparr>open_loop = True, agent_id = 0, start_frame = slower, final_frame = Some slower,
                maneuvers = Some [\<lparr>path = [(10, 5)], velocity = [2]\<rparr>],
                current_maneuver = NoneRef\<rparr>)"
    by (simp add: switch_slower MacroAction_init_def)
  from k a n i neighbour_beside gb rb la rl gap_slower ls rs ub'
  show ?thesis by blast
qed

text \<open>
  As first stated, the claim fails: with the flag set, a lane that ends 4 ahead of an ego
  with speed 2, and a car of the same speed 3 ahead on the target lane, make the construction
  raise \<^verbatim>\<open>AssertionError\<close> and \<^verbatim>\<open>RuntimeError\<close>; no blocked-maneuver result is returned.
  With the flag as the source has it, the construction beside that car succeeds with a
  switch of the target length.
\<close>

theorem change_lane_counterexample:
  "ChangeLane_init True lengths_5_20 gap_map x_axis_library False 0 alone True =
     Some (Inl AssertionError) \<and>
   ChangeLane_init True lengths_5_20 gap_map x_axis_library False 0 beside True =
     Some (Inl RuntimeError) \<and>
   ChangeLane_init False lengths_5_20 gap_map x_axis_library False 0 beside True =
     Some (Inr \<lparr>open_loop = True, agent_id = 0, start_frame = beside, final_frame = Some beside,
                maneuvers = Some [\<lparr>path = [(20, 5)], velocity = [2]\<rparr>],
                current_maneuver = NoneRef\<rparr>)"
  using init_alone init_beside init_beside_unchecked by simp


end
